theory Spec2Isabelle
  imports Main "HOL-Library.Sublist" "HOL-Library.Multiset"
begin

section \<open>Data model (shared/schema.ts)\<close>

text \<open>
  Identifiers are JavaScript numbers that only ever hold integers here (counters that
  start at 1 and are incremented, and parsed request parameters); they are modelled as
  \<open>int\<close>, which is exact below \<open>2^53\<close>, more than a run of the program counts. Strings are sequences of code units, modelled as \<open>string\<close>.
  A nullable column is an \<open>option\<close>. Timestamps are \<open>Date\<close> objects,
  modelled by their millisecond value, an \<open>int\<close>.
\<close>

record Customer =
  c_id :: int
  c_name :: string
  c_email :: string
  c_phoneNumber :: string

record Product =
  p_id :: int
  p_name :: string
  p_description :: "string option"
  p_storeLink :: "string option"
  p_thumbnailUrl :: "string option"
  p_isActive :: int

record Notification =
  n_id :: int
  n_customerId :: int
  n_customerEmail :: string
  n_customerName :: string
  n_customerPhone :: "string option"
  n_notificationBody :: string
  n_templateId :: "int option"
  n_productIds :: "int list"
  n_timestamp :: int

record NotificationTemplate =
  t_id :: int
  t_name :: string
  t_template :: string
  t_description :: "string option"
  t_isDefault :: int
  t_createdAt :: int

text \<open>
  The insert shapes omit the identifier (and the timestamp). An optional key of an insert
  shape is an \<open>option\<close>: \<open>None\<close> is the key left out (for a nullable
  column also \<open>null\<close>, which the code treats alike on insertion).
\<close>

record InsertCustomer =
  ic_name :: string
  ic_email :: string
  ic_phoneNumber :: string

record InsertProduct =
  ip_name :: string
  ip_description :: "string option"
  ip_storeLink :: "string option"
  ip_thumbnailUrl :: "string option"
  ip_isActive :: "int option"

record InsertNotificationTemplate =
  it_name :: string
  it_template :: string
  it_description :: "string option"
  it_isDefault :: "int option"

text \<open>
  \<open>Partial<Insert...>\<close>: every key may be left out (\<open>None\<close>). A nullable
  column that is present may hold \<open>null\<close>, hence the nested option.
\<close>

record PartialInsertCustomer =
  uc_name :: "string option"
  uc_email :: "string option"
  uc_phoneNumber :: "string option"

record PartialInsertProduct =
  up_name :: "string option"
  up_description :: "string option option"
  up_storeLink :: "string option option"
  up_thumbnailUrl :: "string option option"
  up_isActive :: "int option"

record PartialInsertNotificationTemplate =
  ut_name :: "string option"
  ut_template :: "string option"
  ut_description :: "string option option"
  ut_isDefault :: "int option"

section \<open>JavaScript \<open>Map\<close>\<close>

text \<open>
  A \<open>Map<number, V>\<close> iterates in insertion order, so it is an association list:
  \<open>set\<close> on a key that is present replaces the value in place, on a new key it
  appends; \<open>delete\<close> removes the entry and says whether there was one.
\<close>

type_synonym 'v jsmap = "(int \<times> 'v) list"

fun jsmap_get :: "'v jsmap \<Rightarrow> int \<Rightarrow> 'v option" where
  "jsmap_get [] k = None"
| "jsmap_get ((k', v) # m) k = (if k' = k then Some v else jsmap_get m k)"

fun jsmap_set :: "int \<Rightarrow> 'v \<Rightarrow> 'v jsmap \<Rightarrow> 'v jsmap" where
  "jsmap_set k v [] = [(k, v)]"
| "jsmap_set k v ((k', v') # m) =
     (if k' = k then (k, v) # m else (k', v') # jsmap_set k v m)"

fun jsmap_remove :: "int \<Rightarrow> 'v jsmap \<Rightarrow> 'v jsmap" where
  "jsmap_remove k [] = []"
| "jsmap_remove k ((k', v) # m) =
     (if k' = k then jsmap_remove k m else (k', v) # jsmap_remove k m)"

definition jsmap_has :: "'v jsmap \<Rightarrow> int \<Rightarrow> bool" where
  "jsmap_has m k = (jsmap_get m k \<noteq> None)"

definition jsmap_delete :: "int \<Rightarrow> 'v jsmap \<Rightarrow> 'v jsmap \<times> bool" where
  "jsmap_delete k m = (jsmap_remove k m, jsmap_has m k)"

definition jsmap_values :: "'v jsmap \<Rightarrow> 'v list" where
  "jsmap_values m = map snd m"

definition jsmap_keys :: "'v jsmap \<Rightarrow> int list" where
  "jsmap_keys m = map fst m"

section \<open>The store (server/storage.ts, class MemStorage)\<close>

record MemStorage =
  customers :: "Customer jsmap"
  products :: "Product jsmap"
  notifications :: "Notification jsmap"
  notificationTemplates :: "NotificationTemplate jsmap"
  currentCustomerId :: int
  currentProductId :: int
  currentNotificationId :: int
  currentNotificationTemplateId :: int

text \<open>The constructor's state before \<open>initializeSampleData\<close> runs.\<close>

definition emptyStorage :: MemStorage where
  "emptyStorage =
     \<lparr> customers = [], products = [], notifications = [], notificationTemplates = [],
       currentCustomerId = 1, currentProductId = 1, currentNotificationId = 1,
       currentNotificationTemplateId = 1 \<rparr>"

subsection \<open>Customers\<close>

definition getCustomer :: "MemStorage \<Rightarrow> int \<Rightarrow> Customer option" where
  "getCustomer s i = jsmap_get (customers s) i"

definition getCustomerByEmail :: "MemStorage \<Rightarrow> string \<Rightarrow> Customer option" where
  "getCustomerByEmail s email =
     find (\<lambda>customer. c_email customer = email) (jsmap_values (customers s))"

definition getAllCustomers :: "MemStorage \<Rightarrow> Customer list" where
  "getAllCustomers s = jsmap_values (customers s)"

definition createCustomer :: "MemStorage \<Rightarrow> InsertCustomer \<Rightarrow> MemStorage \<times> Customer" where
  "createCustomer s insertCustomer =
     (let i = currentCustomerId s;
          customer = \<lparr> c_id = i, c_name = ic_name insertCustomer,
                       c_email = ic_email insertCustomer,
                       c_phoneNumber = ic_phoneNumber insertCustomer \<rparr>
      in (s\<lparr> currentCustomerId := i + 1,
             customers := jsmap_set i customer (customers s) \<rparr>, customer))"

definition mergeCustomer :: "Customer \<Rightarrow> PartialInsertCustomer \<Rightarrow> Customer" where
  "mergeCustomer customer updates =
     customer\<lparr> c_name := (case uc_name updates of None \<Rightarrow> c_name customer | Some v \<Rightarrow> v),
               c_email := (case uc_email updates of None \<Rightarrow> c_email customer | Some v \<Rightarrow> v),
               c_phoneNumber :=
                 (case uc_phoneNumber updates of None \<Rightarrow> c_phoneNumber customer | Some v \<Rightarrow> v) \<rparr>"

definition updateCustomer ::
  "MemStorage \<Rightarrow> int \<Rightarrow> PartialInsertCustomer \<Rightarrow> MemStorage \<times> Customer option" where
  "updateCustomer s i updates =
     (case jsmap_get (customers s) i of
        None \<Rightarrow> (s, None)
      | Some customer \<Rightarrow>
          (let updatedCustomer = mergeCustomer customer updates
           in (s\<lparr> customers := jsmap_set i updatedCustomer (customers s) \<rparr>,
               Some updatedCustomer)))"

definition deleteCustomer :: "MemStorage \<Rightarrow> int \<Rightarrow> MemStorage \<times> bool" where
  "deleteCustomer s i =
     (let (m, existed) = jsmap_delete i (customers s) in (s\<lparr> customers := m \<rparr>, existed))"

subsection \<open>Products\<close>

definition getProduct :: "MemStorage \<Rightarrow> int \<Rightarrow> Product option" where
  "getProduct s i = jsmap_get (products s) i"

definition createProduct :: "MemStorage \<Rightarrow> InsertProduct \<Rightarrow> MemStorage \<times> Product" where
  "createProduct s insertProduct =
     (let i = currentProductId s;
          product = \<lparr> p_id = i, p_name = ip_name insertProduct,
                      p_description = ip_description insertProduct,
                      p_storeLink = ip_storeLink insertProduct,
                      p_thumbnailUrl = ip_thumbnailUrl insertProduct,
                      p_isActive = (case ip_isActive insertProduct of Some a \<Rightarrow> a | None \<Rightarrow> 1) \<rparr>
      in (s\<lparr> currentProductId := i + 1,
             products := jsmap_set i product (products s) \<rparr>, product))"

definition mergeProduct :: "Product \<Rightarrow> PartialInsertProduct \<Rightarrow> Product" where
  "mergeProduct product updates =
     product\<lparr> p_name := (case up_name updates of None \<Rightarrow> p_name product | Some v \<Rightarrow> v),
              p_description :=
                (case up_description updates of None \<Rightarrow> p_description product | Some v \<Rightarrow> v),
              p_storeLink :=
                (case up_storeLink updates of None \<Rightarrow> p_storeLink product | Some v \<Rightarrow> v),
              p_thumbnailUrl :=
                (case up_thumbnailUrl updates of None \<Rightarrow> p_thumbnailUrl product | Some v \<Rightarrow> v),
              p_isActive := (case up_isActive updates of None \<Rightarrow> p_isActive product | Some v \<Rightarrow> v) \<rparr>"

definition updateProduct ::
  "MemStorage \<Rightarrow> int \<Rightarrow> PartialInsertProduct \<Rightarrow> MemStorage \<times> Product option" where
  "updateProduct s i updates =
     (case jsmap_get (products s) i of
        None \<Rightarrow> (s, None)
      | Some product \<Rightarrow>
          (let updatedProduct = mergeProduct product updates
           in (s\<lparr> products := jsmap_set i updatedProduct (products s) \<rparr>,
               Some updatedProduct)))"

definition deleteProduct :: "MemStorage \<Rightarrow> int \<Rightarrow> MemStorage \<times> bool" where
  "deleteProduct s i =
     (let (m, existed) = jsmap_delete i (products s) in (s\<lparr> products := m \<rparr>, existed))"

subsection \<open>Notification templates\<close>

definition getNotificationTemplate :: "MemStorage \<Rightarrow> int \<Rightarrow> NotificationTemplate option" where
  "getNotificationTemplate s i = jsmap_get (notificationTemplates s) i"

text \<open>
  \<open>new Date()\<close> reads the clock; the value read is the argument \<open>now\<close>.
  \<open>insertTemplate.description || null\<close> turns the empty string into \<open>null\<close>.
\<close>

definition createNotificationTemplate ::
  "int \<Rightarrow> MemStorage \<Rightarrow> InsertNotificationTemplate \<Rightarrow> MemStorage \<times> NotificationTemplate" where
  "createNotificationTemplate now s insertTemplate =
     (let i = currentNotificationTemplateId s;
          template = \<lparr> t_id = i, t_name = it_name insertTemplate,
                       t_template = it_template insertTemplate,
                       t_description =
                         (case it_description insertTemplate of
                            None \<Rightarrow> None
                          | Some d \<Rightarrow> if d = [] then None else Some d),
                       t_isDefault = (case it_isDefault insertTemplate of Some a \<Rightarrow> a | None \<Rightarrow> 0),
                       t_createdAt = now \<rparr>
      in (s\<lparr> currentNotificationTemplateId := i + 1,
             notificationTemplates := jsmap_set i template (notificationTemplates s) \<rparr>,
          template))"

definition mergeNotificationTemplate ::
  "NotificationTemplate \<Rightarrow> PartialInsertNotificationTemplate \<Rightarrow> NotificationTemplate" where
  "mergeNotificationTemplate template updates =
     template\<lparr> t_name := (case ut_name updates of None \<Rightarrow> t_name template | Some v \<Rightarrow> v),
               t_template :=
                 (case ut_template updates of None \<Rightarrow> t_template template | Some v \<Rightarrow> v),
               t_description :=
                 (case ut_description updates of None \<Rightarrow> t_description template | Some v \<Rightarrow> v),
               t_isDefault :=
                 (case ut_isDefault updates of None \<Rightarrow> t_isDefault template | Some v \<Rightarrow> v) \<rparr>"

definition updateNotificationTemplate ::
  "MemStorage \<Rightarrow> int \<Rightarrow> PartialInsertNotificationTemplate
     \<Rightarrow> MemStorage \<times> NotificationTemplate option" where
  "updateNotificationTemplate s i updates =
     (case jsmap_get (notificationTemplates s) i of
        None \<Rightarrow> (s, None)
      | Some template \<Rightarrow>
          (let updatedTemplate = mergeNotificationTemplate template updates
           in (s\<lparr> notificationTemplates :=
                    jsmap_set i updatedTemplate (notificationTemplates s) \<rparr>,
               Some updatedTemplate)))"

definition deleteNotificationTemplate :: "MemStorage \<Rightarrow> int \<Rightarrow> MemStorage \<times> bool" where
  "deleteNotificationTemplate s i =
     (let (m, existed) = jsmap_delete i (notificationTemplates s)
      in (s\<lparr> notificationTemplates := m \<rparr>, existed))"

subsection \<open>Template interpolation (the chain of \<open>replace\<close> calls in createNotifications)\<close>

text \<open>
  \<open>String.prototype.replace\<close> with a string as replacement expands the patterns
  \<open>$$\<close>, \<open>$&\<close>, \<open>$`\<close> and \<open>$'\<close> of the replacement (GetSubstitution of
  ECMA-262). The regular expressions of the source have no capture group, so
  \<open>$1\<close>..\<open>$99\<close> and \<open>$<name>\<close> stand for themselves. \<open>preceding\<close> and
  \<open>following\<close> are the parts of the searched string around the match.
\<close>

fun getSubstitution :: "string \<Rightarrow> string \<Rightarrow> string \<Rightarrow> string \<Rightarrow> string" where
  "getSubstitution matched preceding following [] = []"
| "getSubstitution matched preceding following [c] = [c]"
| "getSubstitution matched preceding following (c # d # r) =
     (if c = CHR ''$'' \<and> d = CHR ''$'' then CHR ''$'' # getSubstitution matched preceding following r
      else if c = CHR ''$'' \<and> d = CHR 0x60 then preceding @ getSubstitution matched preceding following r
      else if c = CHR ''$'' \<and> d = CHR ''&'' then matched @ getSubstitution matched preceding following r
      else if c = CHR ''$'' \<and> d = CHR 0x27 then following @ getSubstitution matched preceding following r
      else c # getSubstitution matched preceding following (d # r))"

text \<open>
  \<open>str.replace(/tok/g, repl)\<close> for a regular expression that is a literal, non-empty
  text \<open>tok\<close>: the matches are found left to right without overlap in the searched
  string, and each is replaced by the expansion of \<open>repl\<close>. \<open>preceding\<close> is the part
  of the searched string already passed.
\<close>

function replaceFrom :: "string \<Rightarrow> string \<Rightarrow> string \<Rightarrow> string \<Rightarrow> string" where
  "replaceFrom tok repl preceding [] = []"
| "replaceFrom tok repl preceding (c # cs) =
     (if tok \<noteq> [] \<and> prefix tok (c # cs)
      then getSubstitution tok preceding (drop (length tok) (c # cs)) repl
           @ replaceFrom tok repl (preceding @ tok) (drop (length tok) (c # cs))
      else c # replaceFrom tok repl (preceding @ [c]) cs)"
  by pat_completeness auto
termination
  by (relation "measure (\<lambda>(tok, repl, preceding, s). length s)") (auto simp: neq_Nil_conv)

definition replaceAll :: "string \<Rightarrow> string \<Rightarrow> string \<Rightarrow> string" where
  "replaceAll tok repl s = replaceFrom tok repl [] s"

text \<open>
  \<open>x || ''\<close> for a nullable string. For the phone number, a string that is never
  \<open>null\<close>, \<open>customer.phoneNumber || ''\<close> is the phone number itself.
\<close>

definition orEmpty :: "string option \<Rightarrow> string" where
  "orEmpty x = (case x of None \<Rightarrow> [] | Some v \<Rightarrow> v)"

definition interpolate :: "string \<Rightarrow> Customer \<Rightarrow> Product \<Rightarrow> string" where
  "interpolate template customer product =
     replaceAll ''{{product.thumbnailUrl}}'' (orEmpty (p_thumbnailUrl product))
       (replaceAll ''{{product.storeLink}}'' (orEmpty (p_storeLink product))
         (replaceAll ''{{product.description}}'' (orEmpty (p_description product))
           (replaceAll ''{{product.name}}'' (p_name product)
             (replaceAll ''{{customer.phoneNumber}}'' (c_phoneNumber customer)
               (replaceAll ''{{customer.email}}'' (c_email customer)
                 (replaceAll ''{{customer.name}}'' (c_name customer) template))))))"

subsection \<open>Notifications\<close>

definition getNotification :: "MemStorage \<Rightarrow> int \<Rightarrow> Notification option" where
  "getNotification s i = jsmap_get (notifications s) i"

text \<open>
  \<open>Array.prototype.sort\<close> is stable and, for a consistent comparator, returns the
  elements in comparator order; that result is unique, and insertion sort computes it. An
  element goes before the first element that it does not compare greater than.
\<close>

fun js_insert :: "('a \<Rightarrow> 'a \<Rightarrow> int) \<Rightarrow> 'a \<Rightarrow> 'a list \<Rightarrow> 'a list" where
  "js_insert cmp x [] = [x]"
| "js_insert cmp x (y # ys) = (if cmp x y \<le> 0 then x # y # ys else y # js_insert cmp x ys)"

definition js_sort :: "('a \<Rightarrow> 'a \<Rightarrow> int) \<Rightarrow> 'a list \<Rightarrow> 'a list" where
  "js_sort cmp xs = foldr (js_insert cmp) xs []"

definition byTimestampDesc :: "Notification \<Rightarrow> Notification \<Rightarrow> int" where
  "byTimestampDesc a b = n_timestamp b - n_timestamp a"

definition getAllNotifications :: "MemStorage \<Rightarrow> Notification list" where
  "getAllNotifications s = js_sort byTimestampDesc (jsmap_values (notifications s))"

definition getNotificationsByDateRange :: "MemStorage \<Rightarrow> int \<Rightarrow> int \<Rightarrow> Notification list" where
  "getNotificationsByDateRange s from to =
     js_sort byTimestampDesc
       (filter (\<lambda>notification. n_timestamp notification \<ge> from \<and> n_timestamp notification \<le> to)
          (jsmap_values (notifications s)))"

record CreateNotificationsData =
  d_templateId :: "int option"
  d_productIds :: "int list"
  d_customerIds :: "int list"

text \<open>
  \<open>data.templateId ? await this.getNotificationTemplate(data.templateId) : null\<close>:
  an identifier that is left out and the identifier 0 are both falsy.
\<close>

definition resolveTemplate :: "MemStorage \<Rightarrow> int option \<Rightarrow> NotificationTemplate option" where
  "resolveTemplate s templateId =
     (case templateId of
        None \<Rightarrow> None
      | Some i \<Rightarrow> if i = 0 then None else getNotificationTemplate s i)"

text \<open>The first product, looked up inside the loop.\<close>

definition firstProduct :: "MemStorage \<Rightarrow> int list \<Rightarrow> Product option" where
  "firstProduct s productIds =
     (if length productIds > 0 then getProduct s (productIds ! 0) else None)"

text \<open>
  The body: \<open>template?.template || "Default notification message"\<close> (the empty
  string is falsy), overwritten by the interpolation when template and product exist.
\<close>

definition notificationBodyOf ::
  "NotificationTemplate option \<Rightarrow> Product option \<Rightarrow> Customer \<Rightarrow> string" where
  "notificationBodyOf template product customer =
     (let notificationBody =
            (case template of
               None \<Rightarrow> ''Default notification message''
             | Some t \<Rightarrow> if t_template t = [] then ''Default notification message''
                         else t_template t)
      in case (template, product) of
           (Some t, Some p) \<Rightarrow> interpolate (t_template t) customer p
         | _ \<Rightarrow> notificationBody)"

text \<open>
  The loop of \<open>createNotifications\<close> over the customer identifiers. \<open>clock k\<close> is
  what \<open>new Date()\<close> returns for the notification created after \<open>k\<close> others of the
  same call.
\<close>

fun createNotificationsLoop ::
  "(nat \<Rightarrow> int) \<Rightarrow> NotificationTemplate option \<Rightarrow> CreateNotificationsData \<Rightarrow> int list
     \<Rightarrow> MemStorage \<Rightarrow> Notification list \<Rightarrow> MemStorage \<times> Notification list" where
  "createNotificationsLoop clock template data [] s createdNotifications =
     (s, createdNotifications)"
| "createNotificationsLoop clock template data (customerId # rest) s createdNotifications =
     (case getCustomer s customerId of
        None \<Rightarrow> createNotificationsLoop clock template data rest s createdNotifications
      | Some customer \<Rightarrow>
          (let product = firstProduct s (d_productIds data);
               notificationBody = notificationBodyOf template product customer;
               i = currentNotificationId s;
               notification =
                 \<lparr> n_id = i, n_customerId = c_id customer, n_customerEmail = c_email customer,
                   n_customerName = c_name customer,
                   n_customerPhone = Some (c_phoneNumber customer),
                   n_notificationBody = notificationBody,
                   n_templateId =
                     (case d_templateId data of
                        None \<Rightarrow> None
                      | Some t \<Rightarrow> if t = 0 then None else Some t),
                   n_productIds = d_productIds data,
                   n_timestamp = clock (length createdNotifications) \<rparr>
           in createNotificationsLoop clock template data rest
                (s\<lparr> currentNotificationId := i + 1,
                    notifications := jsmap_set i notification (notifications s) \<rparr>)
                (createdNotifications @ [notification])))"

definition createNotifications ::
  "(nat \<Rightarrow> int) \<Rightarrow> MemStorage \<Rightarrow> CreateNotificationsData \<Rightarrow> MemStorage \<times> Notification list" where
  "createNotifications clock s data =
     createNotificationsLoop clock (resolveTemplate s (d_templateId data)) data
       (d_customerIds data) s []"

definition deleteNotification :: "MemStorage \<Rightarrow> int \<Rightarrow> MemStorage \<times> bool" where
  "deleteNotification s i =
     (let (m, existed) = jsmap_delete i (notifications s) in (s\<lparr> notifications := m \<rparr>, existed))"

subsection \<open>The constructor and its sample data\<close>

definition sampleCustomers :: "InsertCustomer list" where
  "sampleCustomers =
     [\<lparr> ic_name = ''John Smith'', ic_email = ''john@example.com'',
        ic_phoneNumber = ''+1-555-0123'' \<rparr>,
      \<lparr> ic_name = ''Sarah Johnson'', ic_email = ''sarah@example.com'',
        ic_phoneNumber = ''+1-555-0124'' \<rparr>,
      \<lparr> ic_name = ''Mike Wilson'', ic_email = ''mike@example.com'',
        ic_phoneNumber = ''+44-20-7946-0958'' \<rparr>,
      \<lparr> ic_name = ''Emily Davis'', ic_email = ''emily@example.com'',
        ic_phoneNumber = ''+33-1-42-86-83-26'' \<rparr>]"

definition sampleProducts :: "InsertProduct list" where
  "sampleProducts =
     [\<lparr> ip_name = ''iPhone 15 Pro'',
        ip_description = Some ''Latest flagship smartphone with titanium design'',
        ip_storeLink = Some ''https://apple.com/iphone-15-pro'',
        ip_thumbnailUrl = Some ''https://store.storeimages.cdn-apple.com/4982/as-images.apple.com/is/iphone-15-pro-finish-select-202309-6-1inch-naturaltitanium.jpg'',
        ip_isActive = Some 1 \<rparr>,
      \<lparr> ip_name = ''MacBook Air M2'',
        ip_description = Some ''Thin and light laptop with M2 chip'',
        ip_storeLink = Some ''https://apple.com/macbook-air-m2'',
        ip_thumbnailUrl = Some ''https://store.storeimages.cdn-apple.com/4982/as-images.apple.com/is/macbook-air-midnight-select-20220606.jpg'',
        ip_isActive = Some 1 \<rparr>,
      \<lparr> ip_name = ''AirPods Pro'',
        ip_description = Some ''Wireless earbuds with noise cancellation'',
        ip_storeLink = Some ''https://apple.com/airpods-pro'',
        ip_thumbnailUrl = Some ''https://store.storeimages.cdn-apple.com/4982/as-images.apple.com/is/MQD83.jpg'',
        ip_isActive = Some 1 \<rparr>,
      \<lparr> ip_name = ''iPad Pro'',
        ip_description = Some ''Professional tablet with M2 chip'',
        ip_storeLink = Some ''https://apple.com/ipad-pro'',
        ip_thumbnailUrl = Some ''https://store.storeimages.cdn-apple.com/4982/as-images.apple.com/is/ipad-pro-12-select-wifi-spacegray-202210.jpg'',
        ip_isActive = Some 1 \<rparr>]"

definition sampleTemplates :: "InsertNotificationTemplate list" where
  "sampleTemplates =
     [\<lparr> it_name = ''Product Launch'',
        it_template = ''Hi {{customer.name}}, exciting news! We'' @ [CHR 0x27] @ ''ve just launched {{product.name}} - {{product.description}}. Check it out at {{product.storeLink}}!'',
        it_description = Some ''Template for new product launches'',
        it_isDefault = Some 1 \<rparr>,
      \<lparr> it_name = ''Product Update'',
        it_template = ''Hello {{customer.name}}, we'' @ [CHR 0x27] @ ''ve updated {{product.name}}! Contact us at {{customer.phoneNumber}} if you have questions.'',
        it_description = Some ''Template for product updates'',
        it_isDefault = Some 0 \<rparr>,
      \<lparr> it_name = ''Special Offer'',
        it_template = ''Dear {{customer.name}}, special offer on {{product.name}}! Visit {{product.storeLink}} to learn more.'',
        it_description = Some ''Template for special offers and promotions'',
        it_isDefault = Some 0 \<rparr>]"

text \<open>
  \<open>initializeSampleData\<close> is started by the constructor and has run to its end before
  the server handles a request: nothing else runs between its steps. \<open>clock k\<close> is
  the clock read for the \<open>k\<close>-th sample template.
\<close>

definition initializeSampleData :: "(nat \<Rightarrow> int) \<Rightarrow> MemStorage \<Rightarrow> MemStorage" where
  "initializeSampleData clock s0 =
     (let s1 = fold (\<lambda>customer s. fst (createCustomer s customer)) sampleCustomers s0;
          s2 = fold (\<lambda>product s. fst (createProduct s product)) sampleProducts s1
      in fold (\<lambda>(k, template) s. fst (createNotificationTemplate (clock k) s template))
           (enumerate 0 sampleTemplates) s2)"

definition newMemStorage :: "(nat \<Rightarrow> int) \<Rightarrow> MemStorage" where
  "newMemStorage clock = initializeSampleData clock emptyStorage"

section \<open>The routes (registerRoutes)\<close>

text \<open>
  A key of a JSON request body is left out, holds a value of the wrong type, or holds a
  value of the right type. \<open>insertCustomerSchema.parse\<close> wants the three strings;
  \<open>insertCustomerSchema.partial().parse\<close> accepts a key that is left out. Keys that
  the schema does not know (such as \<open>id\<close>) are dropped by the parser.
\<close>

datatype 'a field = Missing | Invalid | Valid 'a

record CustomerRequestBody =
  rb_name :: "string field"
  rb_email :: "string field"
  rb_phoneNumber :: "string field"

datatype message =
    InvalidData
  | CustomerEmailExists
  | CustomerNotFound
  | ProductIdsRequired
  | CustomerIdsRequired
  | ProductIdNotFound int
  | CustomerIdNotFound int
  | TemplateIdNotFound int

datatype payload =
    Message message
  | CustomerJson Customer
  | NotificationsJson "Notification list"
  | NoContent

datatype response = Response (res_status: nat) (res_payload: payload)

definition insertCustomerSchema_parse :: "CustomerRequestBody \<Rightarrow> InsertCustomer option" where
  "insertCustomerSchema_parse body =
     (case (rb_name body, rb_email body, rb_phoneNumber body) of
        (Valid n, Valid e, Valid p) \<Rightarrow> Some \<lparr> ic_name = n, ic_email = e, ic_phoneNumber = p \<rparr>
      | _ \<Rightarrow> None)"

definition optionalField :: "'a field \<Rightarrow> 'a option" where
  "optionalField f = (case f of Valid v \<Rightarrow> Some v | _ \<Rightarrow> None)"

definition insertCustomerSchema_partial_parse ::
  "CustomerRequestBody \<Rightarrow> PartialInsertCustomer option" where
  "insertCustomerSchema_partial_parse body =
     (if rb_name body = Invalid \<or> rb_email body = Invalid \<or> rb_phoneNumber body = Invalid
      then None
      else Some \<lparr> uc_name = optionalField (rb_name body),
                  uc_email = optionalField (rb_email body),
                  uc_phoneNumber = optionalField (rb_phoneNumber body) \<rparr>)"

text \<open>POST /api/customers\<close>

definition post_api_customers :: "MemStorage \<Rightarrow> CustomerRequestBody \<Rightarrow> MemStorage \<times> response" where
  "post_api_customers s body =
     (case insertCustomerSchema_parse body of
        None \<Rightarrow> (s, Response 400 (Message InvalidData))
      | Some validatedData \<Rightarrow>
          (case getCustomerByEmail s (ic_email validatedData) of
             Some existingCustomer \<Rightarrow> (s, Response 400 (Message CustomerEmailExists))
           | None \<Rightarrow>
               (let (s', customer) = createCustomer s validatedData
                in (s', Response 201 (CustomerJson customer)))))"

text \<open>
  PUT /api/customers/:id. \<open>parseInt\<close> of the path parameter gives an integer or
  \<open>NaN\<close> (\<open>None\<close>), which is the key of no entry.
\<close>

definition put_api_customers_id ::
  "MemStorage \<Rightarrow> int option \<Rightarrow> CustomerRequestBody \<Rightarrow> MemStorage \<times> response" where
  "put_api_customers_id s idParam body =
     (case insertCustomerSchema_partial_parse body of
        None \<Rightarrow> (s, Response 400 (Message InvalidData))
      | Some validatedData \<Rightarrow>
          (case idParam of
             None \<Rightarrow> (s, Response 404 (Message CustomerNotFound))
           | Some i \<Rightarrow>
               (case updateCustomer s i validatedData of
                  (s', None) \<Rightarrow> (s', Response 404 (Message CustomerNotFound))
                | (s', Some customer) \<Rightarrow> (s', Response 200 (CustomerJson customer)))))"

text \<open>DELETE /api/customers/:id\<close>

definition delete_api_customers_id :: "MemStorage \<Rightarrow> int option \<Rightarrow> MemStorage \<times> response" where
  "delete_api_customers_id s idParam =
     (case idParam of
        None \<Rightarrow> (s, Response 404 (Message CustomerNotFound))
      | Some i \<Rightarrow>
          (case deleteCustomer s i of
             (s', False) \<Rightarrow> (s', Response 404 (Message CustomerNotFound))
           | (s', True) \<Rightarrow> (s', Response 204 NoContent)))"

text \<open>
  POST /api/notifications. The body is a JSON object. \<open>productIds\<close> and \<open>customerIds\<close> are \<open>None\<close> when
  the key is missing or is not an array; \<open>templateId\<close> is \<open>None\<close> when it is left
  out or \<open>null\<close>. The elements of the arrays and the template identifier are taken
  to be integers.
\<close>

record NotificationsRequestBody =
  rb_templateId :: "int option"
  rb_productIds :: "int list option"
  rb_customerIds :: "int list option"

definition post_api_notifications ::
  "(nat \<Rightarrow> int) \<Rightarrow> MemStorage \<Rightarrow> NotificationsRequestBody \<Rightarrow> MemStorage \<times> response" where
  "post_api_notifications clock s body =
     (case rb_productIds body of
        None \<Rightarrow> (s, Response 400 (Message ProductIdsRequired))
      | Some productIds \<Rightarrow>
          if length productIds = 0 then (s, Response 400 (Message ProductIdsRequired))
          else
            (case rb_customerIds body of
               None \<Rightarrow> (s, Response 400 (Message CustomerIdsRequired))
             | Some customerIds \<Rightarrow>
                 if length customerIds = 0 then (s, Response 400 (Message CustomerIdsRequired))
                 else
                   (case find (\<lambda>productId. getProduct s productId = None) productIds of
                      Some productId \<Rightarrow> (s, Response 400 (Message (ProductIdNotFound productId)))
                    | None \<Rightarrow>
                        (case find (\<lambda>customerId. getCustomer s customerId = None) customerIds of
                           Some customerId \<Rightarrow>
                             (s, Response 400 (Message (CustomerIdNotFound customerId)))
                         | None \<Rightarrow>
                             (case rb_templateId body of
                                Some templateId \<Rightarrow>
                                  if templateId \<noteq> 0 \<and> getNotificationTemplate s templateId = None
                                  then (s, Response 400 (Message (TemplateIdNotFound templateId)))
                                  else
                                    (let (s', created) =
                                           createNotifications clock s
                                             \<lparr> d_templateId = Some templateId,
                                               d_productIds = productIds,
                                               d_customerIds = customerIds \<rparr>
                                     in (s', Response 201 (NotificationsJson created)))
                              | None \<Rightarrow>
                                  (let (s', created) =
                                         createNotifications clock s
                                           \<lparr> d_templateId = None, d_productIds = productIds,
                                             d_customerIds = customerIds \<rparr>
                                   in (s', Response 201 (NotificationsJson created))))))))"

section \<open>Histories of store operations\<close>

text \<open>
  Every state of the store is reached from the constructor's empty maps by the mutating
  methods of the class; the sample data is itself written by these methods.
\<close>

datatype storageOp =
    CreateCustomer InsertCustomer
  | UpdateCustomer int PartialInsertCustomer
  | DeleteCustomer int
  | CreateProduct InsertProduct
  | UpdateProduct int PartialInsertProduct
  | DeleteProduct int
  | CreateNotifications "nat \<Rightarrow> int" CreateNotificationsData
  | DeleteNotification int
  | CreateNotificationTemplate int InsertNotificationTemplate
  | UpdateNotificationTemplate int PartialInsertNotificationTemplate
  | DeleteNotificationTemplate int

fun applyOp :: "storageOp \<Rightarrow> MemStorage \<Rightarrow> MemStorage" where
  "applyOp (CreateCustomer c) s = fst (createCustomer s c)"
| "applyOp (UpdateCustomer i u) s = fst (updateCustomer s i u)"
| "applyOp (DeleteCustomer i) s = fst (deleteCustomer s i)"
| "applyOp (CreateProduct p) s = fst (createProduct s p)"
| "applyOp (UpdateProduct i u) s = fst (updateProduct s i u)"
| "applyOp (DeleteProduct i) s = fst (deleteProduct s i)"
| "applyOp (CreateNotifications clock d) s = fst (createNotifications clock s d)"
| "applyOp (DeleteNotification i) s = fst (deleteNotification s i)"
| "applyOp (CreateNotificationTemplate now t) s = fst (createNotificationTemplate now s t)"
| "applyOp (UpdateNotificationTemplate i u) s = fst (updateNotificationTemplate s i u)"
| "applyOp (DeleteNotificationTemplate i) s = fst (deleteNotificationTemplate s i)"

fun runOps :: "storageOp list \<Rightarrow> MemStorage \<Rightarrow> MemStorage" where
  "runOps [] s = s"
| "runOps (x # xs) s = runOps xs (applyOp x s)"

subsection \<open>Observations of a history\<close>

text \<open>Every stored record carries the key it is stored under.\<close>

definition keysMatchIds :: "MemStorage \<Rightarrow> bool" where
  "keysMatchIds s \<longleftrightarrow>
     (\<forall>(k, c)\<in>set (customers s). c_id c = k)
     \<and> (\<forall>(k, p)\<in>set (products s). p_id p = k)
     \<and> (\<forall>(k, n)\<in>set (notifications s). n_id n = k)
     \<and> (\<forall>(k, t)\<in>set (notificationTemplates s). t_id t = k)"

text \<open>
  The four kinds of entity, the counter and the stored keys of each kind, and the
  identifiers that an operation assigns: the identifiers of the records it creates.
\<close>

datatype kind = CustomerKind | ProductKind | NotificationKind | NotificationTemplateKind

fun counter :: "kind \<Rightarrow> MemStorage \<Rightarrow> int" where
  "counter CustomerKind s = currentCustomerId s"
| "counter ProductKind s = currentProductId s"
| "counter NotificationKind s = currentNotificationId s"
| "counter NotificationTemplateKind s = currentNotificationTemplateId s"

fun storedIds :: "kind \<Rightarrow> MemStorage \<Rightarrow> int list" where
  "storedIds CustomerKind s = jsmap_keys (customers s)"
| "storedIds ProductKind s = jsmap_keys (products s)"
| "storedIds NotificationKind s = jsmap_keys (notifications s)"
| "storedIds NotificationTemplateKind s = jsmap_keys (notificationTemplates s)"

fun assignedBy :: "kind \<Rightarrow> storageOp \<Rightarrow> MemStorage \<Rightarrow> int list" where
  "assignedBy CustomerKind (CreateCustomer c) s = [c_id (snd (createCustomer s c))]"
| "assignedBy ProductKind (CreateProduct p) s = [p_id (snd (createProduct s p))]"
| "assignedBy NotificationKind (CreateNotifications clock d) s =
     map n_id (snd (createNotifications clock s d))"
| "assignedBy NotificationTemplateKind (CreateNotificationTemplate now t) s =
     [t_id (snd (createNotificationTemplate now s t))]"
| "assignedBy k x s = []"

fun assigned :: "kind \<Rightarrow> storageOp list \<Rightarrow> MemStorage \<Rightarrow> int list" where
  "assigned k [] s = []"
| "assigned k (x # xs) s = assignedBy k x s @ assigned k xs (applyOp x s)"

section \<open>The notifications that a call creates\<close>

text \<open>
  The notification that the loop of \<open>createNotifications\<close> builds for a customer, given
  the first product, the identifier \<open>i\<close> and the number \<open>k\<close> of notifications
  created before it; and the notifications built for a list of customers in turn.
\<close>

definition notificationOf ::
  "(nat \<Rightarrow> int) \<Rightarrow> NotificationTemplate option \<Rightarrow> CreateNotificationsData \<Rightarrow> Product option
     \<Rightarrow> int \<Rightarrow> nat \<Rightarrow> Customer \<Rightarrow> Notification" where
  "notificationOf clock template data product i k customer =
     \<lparr> n_id = i, n_customerId = c_id customer, n_customerEmail = c_email customer,
       n_customerName = c_name customer, n_customerPhone = Some (c_phoneNumber customer),
       n_notificationBody = notificationBodyOf template product customer,
       n_templateId = (case d_templateId data of None \<Rightarrow> None
                       | Some t \<Rightarrow> if t = 0 then None else Some t),
       n_productIds = d_productIds data, n_timestamp = clock k \<rparr>"

fun notificationsOf ::
  "(nat \<Rightarrow> int) \<Rightarrow> NotificationTemplate option \<Rightarrow> CreateNotificationsData \<Rightarrow> Product option
     \<Rightarrow> int \<Rightarrow> nat \<Rightarrow> Customer list \<Rightarrow> Notification list" where
  "notificationsOf clock template data product i k [] = []"
| "notificationsOf clock template data product i k (c # cs) =
     notificationOf clock template data product i k c
       # notificationsOf clock template data product (i + 1) (Suc k) cs"

text \<open>The customers that a list of identifiers resolves to, in the order of the list.\<close>

definition resolvedCustomers :: "MemStorage \<Rightarrow> int list \<Rightarrow> Customer list" where
  "resolvedCustomers s customerIds =
     map (\<lambda>i. the (getCustomer s i)) (filter (\<lambda>i. getCustomer s i \<noteq> None) customerIds)"

section \<open>What interpolation is claimed to do\<close>


























section \<open>Concrete instances\<close>

text \<open>A clock for the concrete instances of the theorems.\<close>

definition sampleClock :: "nat \<Rightarrow> int" where
  "sampleClock k = 1700000000000 + int k"

text \<open>
  The store after one call of \<open>createNotifications\<close> on the constructor's store: three
  notifications, stamped one millisecond apart.
\<close>

definition notifiedStore :: MemStorage where
  "notifiedStore =
     fst (createNotifications (\<lambda>k. 1700000001000 + int k) (newMemStorage sampleClock)
            \<lparr> d_templateId = None, d_productIds = [1], d_customerIds = [1, 2, 3] \<rparr>)"

text \<open>A store with a template whose text is empty (the schema accepts any string).\<close>

definition blankTemplateStore :: MemStorage where
  "blankTemplateStore =
     fst (createNotificationTemplate 1700000000500 (newMemStorage sampleClock)
            \<lparr> it_name = ''Blank'', it_template = [], it_description = None,
              it_isDefault = None \<rparr>)"

text \<open>A short history: two customers, a product and a template are created, the second
  customer is renamed, the first is deleted, and both customers are notified.\<close>

definition shortHistory :: "storageOp list" where
  "shortHistory =
     [CreateCustomer \<lparr> ic_name = ''Ana'', ic_email = ''ana@example.com'', ic_phoneNumber = ''1'' \<rparr>,
      CreateCustomer \<lparr> ic_name = ''Bob'', ic_email = ''bob@example.com'', ic_phoneNumber = ''2'' \<rparr>,
      CreateProduct \<lparr> ip_name = ''Widget'', ip_description = None, ip_storeLink = None,
                      ip_thumbnailUrl = None, ip_isActive = None \<rparr>,
      CreateNotificationTemplate 1700000000000
        \<lparr> it_name = ''Hello'', it_template = ''Hi {{customer.name}}, see {{product.name}}'',
          it_description = None, it_isDefault = None \<rparr>,
      UpdateCustomer 2 \<lparr> uc_name = Some ''Robert'', uc_email = None, uc_phoneNumber = None \<rparr>,
      DeleteCustomer 1,
      CreateNotifications sampleClock
        \<lparr> d_templateId = Some 1, d_productIds = [1], d_customerIds = [1, 2] \<rparr>]"

text \<open>A customer and a product for the concrete instances.\<close>

definition ana :: Customer where
  "ana = \<lparr> c_id = 1, c_name = ''Ana'', c_email = ''ana@example.com'', c_phoneNumber = ''555'' \<rparr>"



section \<open>Facts about maps\<close>

lemma jsmap_get_set: "jsmap_get (jsmap_set k v m) k' = (if k' = k then Some v else jsmap_get m k')"
  by (induction m) auto

lemma jsmap_get_remove:
  "jsmap_get (jsmap_remove k m) k' = (if k' = k then None else jsmap_get m k')"
  by (induction m) auto

lemma jsmap_remove_absent: "jsmap_get m k = None \<Longrightarrow> jsmap_remove k m = m"
  by (induction m) (auto split: if_splits)

lemma jsmap_set_cases:
  "e \<in> set (jsmap_set k v m) \<Longrightarrow> e = (k, v) \<or> e \<in> set m"
  by (induction m) (auto split: if_splits)

lemma jsmap_remove_subset: "e \<in> set (jsmap_remove k m) \<Longrightarrow> e \<in> set m"
  by (induction m) (auto split: if_splits)

lemma jsmap_get_None_iff: "jsmap_get m k = None \<longleftrightarrow> k \<notin> set (jsmap_keys m)"
  by (induction m) (auto simp: jsmap_keys_def split: if_splits)

lemma jsmap_keys_set: "set (jsmap_keys (jsmap_set k v m)) = insert k (set (jsmap_keys m))"
proof (rule set_eqI)
  fix j
  have "j \<in> set (jsmap_keys (jsmap_set k v m)) \<longleftrightarrow> jsmap_get (jsmap_set k v m) j \<noteq> None"
    by (simp add: jsmap_get_None_iff)
  also have "\<dots> \<longleftrightarrow> j = k \<or> jsmap_get m j \<noteq> None"
    by (simp add: jsmap_get_set)
  also have "\<dots> \<longleftrightarrow> j \<in> insert k (set (jsmap_keys m))"
    by (simp add: jsmap_get_None_iff)
  finally show "j \<in> set (jsmap_keys (jsmap_set k v m)) \<longleftrightarrow> j \<in> insert k (set (jsmap_keys m))" .
qed

lemma jsmap_get_Some_mem: "jsmap_get m k = Some v \<Longrightarrow> (k, v) \<in> set m"
  by (induction m) (auto split: if_splits)

text \<open>The constructor's store, for the clock \<open>sampleClock\<close>.\<close>

lemma sample_customers:
  "customers (newMemStorage sampleClock) =
     [(1, \<lparr> c_id = 1, c_name = ''John Smith'', c_email = ''john@example.com'', c_phoneNumber = ''+1-555-0123'' \<rparr>),
      (2, \<lparr> c_id = 2, c_name = ''Sarah Johnson'', c_email = ''sarah@example.com'', c_phoneNumber = ''+1-555-0124'' \<rparr>),
      (3, \<lparr> c_id = 3, c_name = ''Mike Wilson'', c_email = ''mike@example.com'', c_phoneNumber = ''+44-20-7946-0958'' \<rparr>),
      (4, \<lparr> c_id = 4, c_name = ''Emily Davis'', c_email = ''emily@example.com'', c_phoneNumber = ''+33-1-42-86-83-26'' \<rparr>)]"
  by code_simp

lemma sample_products:
  "products (newMemStorage sampleClock) =
     [(1, \<lparr> p_id = 1, p_name = ''iPhone 15 Pro'',
           p_description = Some ''Latest flagship smartphone with titanium design'',
           p_storeLink = Some ''https://apple.com/iphone-15-pro'',
           p_thumbnailUrl = Some ''https://store.storeimages.cdn-apple.com/4982/as-images.apple.com/is/iphone-15-pro-finish-select-202309-6-1inch-naturaltitanium.jpg'',
           p_isActive = 1 \<rparr>),
      (2, \<lparr> p_id = 2, p_name = ''MacBook Air M2'',
           p_description = Some ''Thin and light laptop with M2 chip'',
           p_storeLink = Some ''https://apple.com/macbook-air-m2'',
           p_thumbnailUrl = Some ''https://store.storeimages.cdn-apple.com/4982/as-images.apple.com/is/macbook-air-midnight-select-20220606.jpg'',
           p_isActive = 1 \<rparr>),
      (3, \<lparr> p_id = 3, p_name = ''AirPods Pro'',
           p_description = Some ''Wireless earbuds with noise cancellation'',
           p_storeLink = Some ''https://apple.com/airpods-pro'',
           p_thumbnailUrl = Some ''https://store.storeimages.cdn-apple.com/4982/as-images.apple.com/is/MQD83.jpg'',
           p_isActive = 1 \<rparr>),
      (4, \<lparr> p_id = 4, p_name = ''iPad Pro'',
           p_description = Some ''Professional tablet with M2 chip'',
           p_storeLink = Some ''https://apple.com/ipad-pro'',
           p_thumbnailUrl = Some ''https://store.storeimages.cdn-apple.com/4982/as-images.apple.com/is/ipad-pro-12-select-wifi-spacegray-202210.jpg'',
           p_isActive = 1 \<rparr>)]"
  by code_simp

lemma sample_notifications: "notifications (newMemStorage sampleClock) = []"
  by code_simp

lemma sample_template_keys:
  "map fst (notificationTemplates (newMemStorage sampleClock)) = [1, 2, 3]"
  by code_simp

lemma sample_counters:
  "currentCustomerId (newMemStorage sampleClock) = 5"
  "currentProductId (newMemStorage sampleClock) = 5"
  "currentNotificationId (newMemStorage sampleClock) = 1"
  "currentNotificationTemplateId (newMemStorage sampleClock) = 4"
  by code_simp+

section \<open>Deleting\<close>

text \<open>
  C9. For each of the four kinds, \<open>delete\<close> returns whether the identifier had a
  record, removes that record and no other, and touches nothing else of the store;
  deleting an identifier that has no record returns \<open>False\<close> and the store is the
  same store.
\<close>

theorem delete_reports_existence:
  "snd (deleteCustomer s i) = (getCustomer s i \<noteq> None)
   \<and> getCustomer (fst (deleteCustomer s i)) i = None
   \<and> (j \<noteq> i \<longrightarrow> getCustomer (fst (deleteCustomer s i)) j = getCustomer s j)
   \<and> fst (deleteCustomer s i) = s\<lparr> customers := customers (fst (deleteCustomer s i)) \<rparr>
   \<and> (getCustomer s i = None \<longrightarrow> deleteCustomer s i = (s, False))
   \<and> snd (deleteProduct s i) = (getProduct s i \<noteq> None)
   \<and> getProduct (fst (deleteProduct s i)) i = None
   \<and> (j \<noteq> i \<longrightarrow> getProduct (fst (deleteProduct s i)) j = getProduct s j)
   \<and> fst (deleteProduct s i) = s\<lparr> products := products (fst (deleteProduct s i)) \<rparr>
   \<and> (getProduct s i = None \<longrightarrow> deleteProduct s i = (s, False))
   \<and> snd (deleteNotification s i) = (getNotification s i \<noteq> None)
   \<and> getNotification (fst (deleteNotification s i)) i = None
   \<and> (j \<noteq> i \<longrightarrow> getNotification (fst (deleteNotification s i)) j = getNotification s j)
   \<and> fst (deleteNotification s i) = s\<lparr> notifications := notifications (fst (deleteNotification s i)) \<rparr>
   \<and> (getNotification s i = None \<longrightarrow> deleteNotification s i = (s, False))
   \<and> snd (deleteNotificationTemplate s i) = (getNotificationTemplate s i \<noteq> None)
   \<and> getNotificationTemplate (fst (deleteNotificationTemplate s i)) i = None
   \<and> (j \<noteq> i \<longrightarrow> getNotificationTemplate (fst (deleteNotificationTemplate s i)) j
                    = getNotificationTemplate s j)
   \<and> fst (deleteNotificationTemplate s i)
       = s\<lparr> notificationTemplates := notificationTemplates (fst (deleteNotificationTemplate s i)) \<rparr>
   \<and> (getNotificationTemplate s i = None \<longrightarrow> deleteNotificationTemplate s i = (s, False))"
  by (simp add: deleteCustomer_def deleteProduct_def deleteNotification_def
      deleteNotificationTemplate_def getCustomer_def getProduct_def getNotification_def
      getNotificationTemplate_def jsmap_delete_def jsmap_has_def jsmap_get_remove
      jsmap_remove_absent)

theorem delete_reports_existence_witness:
  "deleteCustomer (newMemStorage sampleClock) 999 = (newMemStorage sampleClock, False)
   \<and> snd (deleteCustomer (newMemStorage sampleClock) 2) = True
   \<and> getCustomer (fst (deleteCustomer (newMemStorage sampleClock) 2)) 2 = None
   \<and> getCustomer (fst (deleteCustomer (newMemStorage sampleClock) 2)) 3
       = getCustomer (newMemStorage sampleClock) 3"
  using delete_reports_existence [of "newMemStorage sampleClock" 999 3]
    delete_reports_existence [of "newMemStorage sampleClock" 2 3]
  by (simp add: getCustomer_def sample_customers)

section \<open>Creating a customer through the API\<close>

lemma find_Some_if_member: "x \<in> set xs \<Longrightarrow> P x \<Longrightarrow> find P xs \<noteq> None"
  by (auto simp: find_None_iff)

lemma getCustomerByEmail_finds:
  assumes "(k, c) \<in> set (customers s)"
  shows "getCustomerByEmail s (c_email c) \<noteq> None"
proof -
  from assms have "c \<in> set (jsmap_values (customers s))"
    by (force simp: jsmap_values_def)
  then show ?thesis
    unfolding getCustomerByEmail_def by (rule find_Some_if_member) simp
qed

text \<open>
  C5. A POST /api/customers whose email is the email of a stored customer answers 400
  and leaves the store as it was; when the body is otherwise valid, the answer is the
  conflict message.
\<close>

theorem duplicate_email_is_rejected:
  assumes "rb_email body = Valid e" and "(k, c) \<in> set (customers s)" and "c_email c = e"
  shows "fst (post_api_customers s body) = s
         \<and> res_status (snd (post_api_customers s body)) = 400
         \<and> (insertCustomerSchema_parse body \<noteq> None \<longrightarrow>
              post_api_customers s body = (s, Response 400 (Message CustomerEmailExists)))"
proof (cases "insertCustomerSchema_parse body")
  case None
  then show ?thesis by (simp add: post_api_customers_def)
next
  case (Some v)
  with assms(1) have "ic_email v = e"
    by (auto simp: insertCustomerSchema_parse_def split: field.splits)
  with assms(3) getCustomerByEmail_finds [OF assms(2)]
  have "getCustomerByEmail s (ic_email v) \<noteq> None"
    by simp
  with Some show ?thesis
    by (auto simp: post_api_customers_def)
qed

theorem duplicate_email_is_rejected_witness:
  "post_api_customers (newMemStorage sampleClock)
     \<lparr> rb_name = Valid ''Sarah J.'', rb_email = Valid ''sarah@example.com'',
       rb_phoneNumber = Valid ''+1-555-0199'' \<rparr>
   = (newMemStorage sampleClock, Response 400 (Message CustomerEmailExists))"
  using duplicate_email_is_rejected
    [of "\<lparr> rb_name = Valid ''Sarah J.'', rb_email = Valid ''sarah@example.com'',
           rb_phoneNumber = Valid ''+1-555-0199'' \<rparr>"
        "''sarah@example.com''" 2
        "\<lparr> c_id = 2, c_name = ''Sarah Johnson'', c_email = ''sarah@example.com'',
           c_phoneNumber = ''+1-555-0124'' \<rparr>"
        "newMemStorage sampleClock"]
  by (simp add: sample_customers insertCustomerSchema_parse_def)

section \<open>Listing notifications\<close>

lemma mset_js_insert: "mset (js_insert cmp x ys) = add_mset x (mset ys)"
  by (induction ys) auto

lemma mset_js_sort: "mset (js_sort cmp xs) = mset xs"
  by (induction xs) (auto simp: js_sort_def mset_js_insert)

lemma set_js_insert: "set (js_insert cmp x ys) = insert x (set ys)"
  by (induction ys) auto

lemma sorted_js_insert_byTimestampDesc:
  "sorted_wrt (\<lambda>a b. n_timestamp a \<ge> n_timestamp b) ys \<Longrightarrow>
   sorted_wrt (\<lambda>a b. n_timestamp a \<ge> n_timestamp b) (js_insert byTimestampDesc x ys)"
proof (induction ys)
  case Nil
  then show ?case by simp
next
  case (Cons y ys)
  show ?case
  proof (cases "byTimestampDesc x y \<le> 0")
    case True
    with Cons.prems show ?thesis
      by (fastforce simp: byTimestampDesc_def)
  next
    case False
    with Cons show ?thesis
      by (auto simp: byTimestampDesc_def set_js_insert)
  qed
qed

lemma sorted_js_sort_byTimestampDesc:
  "sorted_wrt (\<lambda>a b. n_timestamp a \<ge> n_timestamp b) (js_sort byTimestampDesc xs)"
proof (induction xs)
  case Nil
  show ?case by (simp add: js_sort_def)
next
  case (Cons x xs)
  then show ?case
    using sorted_js_insert_byTimestampDesc [of "js_sort byTimestampDesc xs" x]
    by (simp add: js_sort_def)
qed

lemma filter_all: "\<forall>x\<in>set xs. P x \<Longrightarrow> filter P xs = xs"
  by (induction xs) auto

lemma filter_none: "\<forall>x\<in>set xs. \<not> P x \<Longrightarrow> filter P xs = []"
  by (induction xs) auto

text \<open>
  C8. The list of all notifications is the stored notifications in descending order of
  timestamp; the date-range query is the stored notifications whose timestamp lies
  between the two endpoints, both included, in descending order of timestamp; a range
  that holds no record gives the empty list, and a range that holds every record gives
  the list of all notifications.
\<close>

theorem notifications_listed_newest_first:
  "sorted_wrt (\<lambda>a b. n_timestamp a \<ge> n_timestamp b) (getAllNotifications s)
   \<and> mset (getAllNotifications s) = mset (jsmap_values (notifications s))
   \<and> sorted_wrt (\<lambda>a b. n_timestamp a \<ge> n_timestamp b) (getNotificationsByDateRange s from to)
   \<and> mset (getNotificationsByDateRange s from to)
       = mset (filter (\<lambda>n. from \<le> n_timestamp n \<and> n_timestamp n \<le> to)
                 (jsmap_values (notifications s)))
   \<and> ((\<forall>n\<in>set (jsmap_values (notifications s)). \<not> (from \<le> n_timestamp n \<and> n_timestamp n \<le> to))
        \<longrightarrow> getNotificationsByDateRange s from to = [])
   \<and> ((\<forall>n\<in>set (jsmap_values (notifications s)). from \<le> n_timestamp n \<and> n_timestamp n \<le> to)
        \<longrightarrow> getNotificationsByDateRange s from to = getAllNotifications s)"
proof -
  have none: "getNotificationsByDateRange s from to = []"
    if "\<forall>n\<in>set (jsmap_values (notifications s)). \<not> (from \<le> n_timestamp n \<and> n_timestamp n \<le> to)"
    using filter_none [OF that] by (simp add: getNotificationsByDateRange_def js_sort_def)
  have every: "getNotificationsByDateRange s from to = getAllNotifications s"
    if "\<forall>n\<in>set (jsmap_values (notifications s)). from \<le> n_timestamp n \<and> n_timestamp n \<le> to"
    using filter_all [OF that] by (simp add: getNotificationsByDateRange_def getAllNotifications_def)
  show ?thesis
    using none every
    by (simp add: getAllNotifications_def getNotificationsByDateRange_def
        sorted_js_sort_byTimestampDesc mset_js_sort del: mset_filter)
qed

lemma notifiedStore_notifications:
  "notifications notifiedStore =
     [(1, \<lparr> n_id = 1, n_customerId = 1, n_customerEmail = ''john@example.com'',
           n_customerName = ''John Smith'', n_customerPhone = Some ''+1-555-0123'',
           n_notificationBody = ''Default notification message'', n_templateId = None,
           n_productIds = [1], n_timestamp = 1700000001000 \<rparr>),
      (2, \<lparr> n_id = 2, n_customerId = 2, n_customerEmail = ''sarah@example.com'',
           n_customerName = ''Sarah Johnson'', n_customerPhone = Some ''+1-555-0124'',
           n_notificationBody = ''Default notification message'', n_templateId = None,
           n_productIds = [1], n_timestamp = 1700000001001 \<rparr>),
      (3, \<lparr> n_id = 3, n_customerId = 3, n_customerEmail = ''mike@example.com'',
           n_customerName = ''Mike Wilson'', n_customerPhone = Some ''+44-20-7946-0958'',
           n_notificationBody = ''Default notification message'', n_templateId = None,
           n_productIds = [1], n_timestamp = 1700000001002 \<rparr>)]"
  by (simp add: notifiedStore_def createNotifications_def getCustomer_def sample_customers
      sample_counters sample_notifications resolveTemplate_def notificationBodyOf_def Let_def)

theorem notifications_listed_newest_first_witness:
  "map n_id (getAllNotifications notifiedStore) = [3, 2, 1]
   \<and> map n_id (getNotificationsByDateRange notifiedStore 1700000001001 1700000001002) = [3, 2]
   \<and> getNotificationsByDateRange notifiedStore 0 5 = []
   \<and> getNotificationsByDateRange notifiedStore 1700000001000 1700000001002
       = getAllNotifications notifiedStore"
  using notifications_listed_newest_first [of notifiedStore 0 5]
    notifications_listed_newest_first [of notifiedStore 1700000001000 1700000001002]
  by (simp add: notifiedStore_notifications getAllNotifications_def
      getNotificationsByDateRange_def js_sort_def byTimestampDesc_def jsmap_values_def)

section \<open>The loop of createNotifications\<close>

lemma loop_keeps_the_rest:
  "customers (fst (createNotificationsLoop clock template data cids s created)) = customers s
   \<and> products (fst (createNotificationsLoop clock template data cids s created)) = products s
   \<and> notificationTemplates (fst (createNotificationsLoop clock template data cids s created))
       = notificationTemplates s
   \<and> currentCustomerId (fst (createNotificationsLoop clock template data cids s created))
       = currentCustomerId s
   \<and> currentProductId (fst (createNotificationsLoop clock template data cids s created))
       = currentProductId s
   \<and> currentNotificationTemplateId (fst (createNotificationsLoop clock template data cids s created))
       = currentNotificationTemplateId s"
  by (induction cids arbitrary: s created) (auto simp: Let_def getCustomer_def split: option.splits)

lemma loop_result:
  "snd (createNotificationsLoop clock template data cids s created)
   = created @ notificationsOf clock template data (firstProduct s (d_productIds data))
                 (currentNotificationId s) (length created) (resolvedCustomers s cids)"
proof (induction cids arbitrary: s created)
  case Nil
  show ?case by (simp add: resolvedCustomers_def)
next
  case (Cons customerId rest)
  show ?case
  proof (cases "getCustomer s customerId")
    case None
    then show ?thesis
      using Cons.IH [of s created] by (simp add: resolvedCustomers_def)
  next
    case (Some customer)
    define n where "n = notificationOf clock template data (firstProduct s (d_productIds data))
                          (currentNotificationId s) (length created) customer"
    define s' where "s' = s\<lparr> currentNotificationId := currentNotificationId s + 1,
                             notifications := jsmap_set (currentNotificationId s) n (notifications s) \<rparr>"
    have same: "getCustomer s' = getCustomer s" "firstProduct s' = firstProduct s"
      by (auto simp: s'_def getCustomer_def firstProduct_def getProduct_def fun_eq_iff)
    have step: "createNotificationsLoop clock template data (customerId # rest) s created
                = createNotificationsLoop clock template data rest s' (created @ [n])"
      using Some by (simp add: Let_def n_def s'_def notificationOf_def)
    have res: "resolvedCustomers s (customerId # rest) = customer # resolvedCustomers s' rest"
      using Some same by (simp add: resolvedCustomers_def)
    have cur: "currentNotificationId s' = currentNotificationId s + 1"
      by (simp add: s'_def)
    have "snd (createNotificationsLoop clock template data rest s' (created @ [n]))
          = (created @ [n]) @ notificationsOf clock template data (firstProduct s' (d_productIds data))
                 (currentNotificationId s') (length (created @ [n])) (resolvedCustomers s' rest)"
      by (rule Cons.IH)
    also have "\<dots> = created @ notificationsOf clock template data (firstProduct s (d_productIds data))
                 (currentNotificationId s) (length created) (customer # resolvedCustomers s' rest)"
      by (simp add: same cur n_def)
    finally show ?thesis
      by (simp only: step res)
  qed
qed

lemma createNotifications_result:
  "snd (createNotifications clock s data)
   = notificationsOf clock (resolveTemplate s (d_templateId data)) data
       (firstProduct s (d_productIds data)) (currentNotificationId s) 0
       (resolvedCustomers s (d_customerIds data))"
  by (simp add: createNotifications_def loop_result)

lemma notificationsOf_fields:
  "map n_customerId (notificationsOf clock template data product i k cs) = map c_id cs"
  "map n_customerName (notificationsOf clock template data product i k cs) = map c_name cs"
  "map n_customerEmail (notificationsOf clock template data product i k cs) = map c_email cs"
  "map n_customerPhone (notificationsOf clock template data product i k cs)
   = map (\<lambda>c. Some (c_phoneNumber c)) cs"
  "map n_productIds (notificationsOf clock template data product i k cs)
   = map (\<lambda>c. d_productIds data) cs"
  "map n_notificationBody (notificationsOf clock template data product i k cs)
   = map (notificationBodyOf template product) cs"
  "map n_id (notificationsOf clock template data product i k cs) = map (\<lambda>j. i + int j) [0..<length cs]"
  by (induction cs arbitrary: i k; simp add: notificationOf_def map_upt_Suc del: upt_Suc)+

subsection \<open>The final state of the loop\<close>

lemma loop_state:
  "fst (createNotificationsLoop clock template data cids s created)
   = s\<lparr> currentNotificationId :=
          currentNotificationId s + int (length (resolvedCustomers s cids)),
        notifications :=
          fold (\<lambda>n. jsmap_set (n_id n) n)
            (notificationsOf clock template data (firstProduct s (d_productIds data))
               (currentNotificationId s) (length created) (resolvedCustomers s cids))
            (notifications s) \<rparr>"
proof (induction cids arbitrary: s created)
  case Nil
  show ?case by (simp add: resolvedCustomers_def)
next
  case (Cons customerId rest)
  show ?case
  proof (cases "getCustomer s customerId")
    case None
    then show ?thesis
      using Cons.IH [of s created] by (simp add: resolvedCustomers_def)
  next
    case (Some customer)
    define n where "n = notificationOf clock template data (firstProduct s (d_productIds data))
                          (currentNotificationId s) (length created) customer"
    define s' where "s' = s\<lparr> currentNotificationId := currentNotificationId s + 1,
                             notifications := jsmap_set (currentNotificationId s) n (notifications s) \<rparr>"
    have same: "getCustomer s' = getCustomer s" "firstProduct s' = firstProduct s"
      by (auto simp: s'_def getCustomer_def firstProduct_def getProduct_def fun_eq_iff)
    have step: "createNotificationsLoop clock template data (customerId # rest) s created
                = createNotificationsLoop clock template data rest s' (created @ [n])"
      using Some by (simp add: Let_def n_def s'_def notificationOf_def)
    have res: "resolvedCustomers s (customerId # rest) = customer # resolvedCustomers s' rest"
      using Some same by (simp add: resolvedCustomers_def)
    have nid: "n_id n = currentNotificationId s"
      by (simp add: n_def notificationOf_def)
    have "fst (createNotificationsLoop clock template data rest s' (created @ [n]))
          = s'\<lparr> currentNotificationId :=
                  currentNotificationId s' + int (length (resolvedCustomers s' rest)),
                notifications :=
                  fold (\<lambda>n. jsmap_set (n_id n) n)
                    (notificationsOf clock template data (firstProduct s' (d_productIds data))
                       (currentNotificationId s') (length (created @ [n]))
                       (resolvedCustomers s' rest))
                    (notifications s') \<rparr>"
      by (rule Cons.IH)
    also have "\<dots> = s\<lparr> currentNotificationId :=
                  currentNotificationId s + int (length (customer # resolvedCustomers s' rest)),
                notifications :=
                  fold (\<lambda>n. jsmap_set (n_id n) n)
                    (notificationsOf clock template data (firstProduct s (d_productIds data))
                       (currentNotificationId s) (length created)
                       (customer # resolvedCustomers s' rest))
                    (notifications s) \<rparr>"
      by (simp add: same n_def [symmetric] nid) (simp add: s'_def)
    finally show ?thesis
      by (simp only: step res)
  qed
qed

lemma createNotifications_state:
  "fst (createNotifications clock s data)
   = s\<lparr> currentNotificationId :=
          currentNotificationId s + int (length (snd (createNotifications clock s data))),
        notifications :=
          fold (\<lambda>n. jsmap_set (n_id n) n) (snd (createNotifications clock s data))
            (notifications s) \<rparr>"
proof -
  have "length (snd (createNotifications clock s data))
        = length (resolvedCustomers s (d_customerIds data))"
    using notificationsOf_fields(1) [of clock "resolveTemplate s (d_templateId data)" data
        "firstProduct s (d_productIds data)" "currentNotificationId s" 0
        "resolvedCustomers s (d_customerIds data)"]
    unfolding createNotifications_result by (metis length_map)
  then show ?thesis
    by (simp add: createNotifications_result [symmetric])
       (simp add: createNotifications_def loop_state loop_result)
qed

lemma createNotifications_ids:
  "map n_id (snd (createNotifications clock s data))
   = map (\<lambda>j. currentNotificationId s + int j)
       [0..<length (snd (createNotifications clock s data))]"
  using notificationsOf_fields(7) [of clock "resolveTemplate s (d_templateId data)" data
      "firstProduct s (d_productIds data)" "currentNotificationId s" 0
      "resolvedCustomers s (d_customerIds data)"]
    notificationsOf_fields(1) [of clock "resolveTemplate s (d_templateId data)" data
      "firstProduct s (d_productIds data)" "currentNotificationId s" 0
      "resolvedCustomers s (d_customerIds data)"]
  unfolding createNotifications_result by (metis length_map)

section \<open>One notification per resolved customer\<close>

lemma resolved_ids:
  assumes "\<forall>(k, c)\<in>set (customers s). c_id c = k"
  shows "map c_id (resolvedCustomers s cids) = filter (\<lambda>i. getCustomer s i \<noteq> None) cids"
proof -
  have "c_id (the (getCustomer s i)) = i" if "getCustomer s i \<noteq> None" for i
  proof -
    from that obtain c where c: "getCustomer s i = Some c" by auto
    then have "(i, c) \<in> set (customers s)"
      by (simp add: getCustomer_def jsmap_get_Some_mem)
    with assms c show ?thesis by auto
  qed
  then show ?thesis
    by (induction cids) (auto simp: resolvedCustomers_def)
qed

text \<open>
  C1. The result of \<open>createNotifications\<close> has one notification for each customer
  identifier of the input that has a stored customer, in the order of the input, with
  that customer's fields; identifiers without a customer contribute nothing, and the
  function always returns a list (there is no error result); every notification carries
  the whole list of product identifiers.
\<close>

theorem one_notification_per_resolved_customer:
  "map n_customerId (snd (createNotifications clock s data))
     = map (\<lambda>i. c_id (the (getCustomer s i)))
         (filter (\<lambda>i. getCustomer s i \<noteq> None) (d_customerIds data))
   \<and> map n_customerName (snd (createNotifications clock s data))
     = map (\<lambda>i. c_name (the (getCustomer s i)))
         (filter (\<lambda>i. getCustomer s i \<noteq> None) (d_customerIds data))
   \<and> map n_customerEmail (snd (createNotifications clock s data))
     = map (\<lambda>i. c_email (the (getCustomer s i)))
         (filter (\<lambda>i. getCustomer s i \<noteq> None) (d_customerIds data))
   \<and> length (snd (createNotifications clock s data))
     = length (filter (\<lambda>i. getCustomer s i \<noteq> None) (d_customerIds data))
   \<and> (\<forall>n\<in>set (snd (createNotifications clock s data)). n_productIds n = d_productIds data)
   \<and> ((\<forall>(k, c)\<in>set (customers s). c_id c = k) \<longrightarrow>
        map n_customerId (snd (createNotifications clock s data))
          = filter (\<lambda>i. getCustomer s i \<noteq> None) (d_customerIds data))"
proof -
  let ?ns = "snd (createNotifications clock s data)"
  let ?cs = "resolvedCustomers s (d_customerIds data)"
  have ids: "map n_customerId ?ns = map c_id ?cs"
    and names: "map n_customerName ?ns = map c_name ?cs"
    and emails: "map n_customerEmail ?ns = map c_email ?cs"
    and pids: "map n_productIds ?ns = map (\<lambda>c. d_productIds data) ?cs"
    by (simp_all only: createNotifications_result notificationsOf_fields)
  have len: "length ?ns = length ?cs"
    using ids by (metis length_map)
  have "\<forall>n\<in>set ?ns. n_productIds n = d_productIds data"
  proof
    fix n assume "n \<in> set ?ns"
    then have "n_productIds n \<in> set (map n_productIds ?ns)" by simp
    then show "n_productIds n = d_productIds data" unfolding pids by auto
  qed
  moreover have "map n_customerId ?ns = filter (\<lambda>i. getCustomer s i \<noteq> None) (d_customerIds data)"
    if "\<forall>(k, c)\<in>set (customers s). c_id c = k"
    using resolved_ids [OF that] ids by simp
  ultimately show ?thesis
    using ids names emails len by (simp add: resolvedCustomers_def comp_def)
qed

theorem one_notification_per_resolved_customer_witness:
  "map n_customerId
     (snd (createNotifications sampleClock (newMemStorage sampleClock)
             \<lparr> d_templateId = None, d_productIds = [1], d_customerIds = [1, 2, 999] \<rparr>))
     = [1, 2]
   \<and> map n_productIds
     (snd (createNotifications sampleClock (newMemStorage sampleClock)
             \<lparr> d_templateId = None, d_productIds = [1], d_customerIds = [1, 2, 999] \<rparr>))
     = [[1], [1]]"
proof -
  let ?ns = "snd (createNotifications sampleClock (newMemStorage sampleClock)
                    \<lparr> d_templateId = None, d_productIds = [1], d_customerIds = [1, 2, 999] \<rparr>)"
  note inst = one_notification_per_resolved_customer
    [of sampleClock "newMemStorage sampleClock"
        "\<lparr> d_templateId = None, d_productIds = [1], d_customerIds = [1, 2, 999] \<rparr>"]
  have ids: "map n_customerId ?ns = [1, 2]"
    using inst by (simp add: getCustomer_def sample_customers)
  have "length ?ns = 2"
    using inst by (simp add: getCustomer_def sample_customers)
  moreover have "\<forall>n\<in>set ?ns. n_productIds n = [1]"
    using inst by simp
  ultimately have "map n_productIds ?ns = [[1], [1]]"
    by (cases ?ns; cases "tl ?ns"; cases "tl (tl ?ns)") auto
  with ids show ?thesis by simp
qed

section \<open>The body of a created notification\<close>

lemma created_bodies:
  "map n_notificationBody (snd (createNotifications clock s data))
   = map (notificationBodyOf (resolveTemplate s (d_templateId data))
            (firstProduct s (d_productIds data)))
       (resolvedCustomers s (d_customerIds data))"
  by (simp only: createNotifications_result notificationsOf_fields)

lemma all_bodies:
  assumes "\<And>c. notificationBodyOf template product c = b"
    and "map n_notificationBody ns = map (notificationBodyOf template product) cs"
  shows "\<forall>n\<in>set ns. n_notificationBody n = b"
proof
  fix n assume "n \<in> set ns"
  then have "n_notificationBody n \<in> set (map n_notificationBody ns)" by simp
  then show "n_notificationBody n = b"
    unfolding assms(2) using assms(1) by auto
qed

text \<open>
  C3, as the code has it. When the template identifier is left out, is 0, or has no
  stored template, every created notification has the default message as its body.
  When a template is resolved and the first product identifier has a stored product,
  the bodies are the interpolations of the template's text for the resolved customers,
  in order. When a template is resolved and there is no first product (the list of
  product identifiers is empty, or its first identifier has no stored product), every
  body is the template's text if that text is not empty, and the default message if it
  is empty.
\<close>

theorem body_of_created_notifications:
  "((d_templateId data = None \<or> d_templateId data = Some 0
      \<or> (\<exists>t. d_templateId data = Some t \<and> getNotificationTemplate s t = None))
     \<longrightarrow> (\<forall>n\<in>set (snd (createNotifications clock s data)).
            n_notificationBody n = ''Default notification message''))
   \<and> ((d_templateId data = Some t \<and> t \<noteq> 0 \<and> getNotificationTemplate s t = Some template
        \<and> d_productIds data = p0 # ps \<and> getProduct s p0 = Some product)
       \<longrightarrow> map n_notificationBody (snd (createNotifications clock s data))
            = map (\<lambda>i. interpolate (t_template template) (the (getCustomer s i)) product)
                (filter (\<lambda>i. getCustomer s i \<noteq> None) (d_customerIds data)))
   \<and> ((d_templateId data = Some t \<and> t \<noteq> 0 \<and> getNotificationTemplate s t = Some template
        \<and> (d_productIds data = [] \<or> (d_productIds data = p0 # ps \<and> getProduct s p0 = None)))
       \<longrightarrow> (\<forall>n\<in>set (snd (createNotifications clock s data)).
              n_notificationBody n
                = (if t_template template = [] then ''Default notification message''
                   else t_template template)))"
proof (intro conjI impI)
  assume "d_templateId data = None \<or> d_templateId data = Some 0
          \<or> (\<exists>t. d_templateId data = Some t \<and> getNotificationTemplate s t = None)"
  then have "resolveTemplate s (d_templateId data) = None"
    by (auto simp: resolveTemplate_def)
  then have "notificationBodyOf (resolveTemplate s (d_templateId data))
               (firstProduct s (d_productIds data)) c = ''Default notification message''" for c
    by (simp add: notificationBodyOf_def)
  then show "\<forall>n\<in>set (snd (createNotifications clock s data)).
               n_notificationBody n = ''Default notification message''"
    by (rule all_bodies) (rule created_bodies)
next
  assume a: "d_templateId data = Some t \<and> t \<noteq> 0 \<and> getNotificationTemplate s t = Some template
             \<and> d_productIds data = p0 # ps \<and> getProduct s p0 = Some product"
  then have "resolveTemplate s (d_templateId data) = Some template"
    and "firstProduct s (d_productIds data) = Some product"
    by (auto simp: resolveTemplate_def firstProduct_def)
  then have "notificationBodyOf (resolveTemplate s (d_templateId data))
               (firstProduct s (d_productIds data))
             = (\<lambda>c. interpolate (t_template template) c product)"
    by (simp add: notificationBodyOf_def fun_eq_iff)
  then show "map n_notificationBody (snd (createNotifications clock s data))
             = map (\<lambda>i. interpolate (t_template template) (the (getCustomer s i)) product)
                 (filter (\<lambda>i. getCustomer s i \<noteq> None) (d_customerIds data))"
    by (simp add: created_bodies resolvedCustomers_def comp_def)
next
  assume a: "d_templateId data = Some t \<and> t \<noteq> 0 \<and> getNotificationTemplate s t = Some template
             \<and> (d_productIds data = [] \<or> (d_productIds data = p0 # ps \<and> getProduct s p0 = None))"
  then have "resolveTemplate s (d_templateId data) = Some template"
    and "firstProduct s (d_productIds data) = None"
    by (auto simp: resolveTemplate_def firstProduct_def)
  then have "notificationBodyOf (resolveTemplate s (d_templateId data))
               (firstProduct s (d_productIds data)) c
             = (if t_template template = [] then ''Default notification message''
                else t_template template)" for c
    by (simp add: notificationBodyOf_def)
  then show "\<forall>n\<in>set (snd (createNotifications clock s data)).
               n_notificationBody n
                 = (if t_template template = [] then ''Default notification message''
                    else t_template template)"
    by (rule all_bodies) (rule created_bodies)
qed

lemma blankTemplateStore_fields:
  "customers blankTemplateStore = customers (newMemStorage sampleClock)"
  "products blankTemplateStore = products (newMemStorage sampleClock)"
  "notifications blankTemplateStore = []"
  "currentNotificationId blankTemplateStore = 1"
  "getNotificationTemplate blankTemplateStore 4
   = Some \<lparr> t_id = 4, t_name = ''Blank'', t_template = [], t_description = None,
            t_isDefault = 0, t_createdAt = 1700000000500 \<rparr>"
  by (simp_all add: blankTemplateStore_def createNotificationTemplate_def Let_def
      sample_counters sample_notifications getNotificationTemplate_def jsmap_get_set)

text \<open>
  The claim as stated fails: template 4 is resolved and its text is empty, there is no
  first product, and the body is the default message, not the template's text.
\<close>

theorem empty_template_text_counterexample:
  "map_option t_template (getNotificationTemplate blankTemplateStore 4) = Some []
   \<and> map n_notificationBody
       (snd (createNotifications sampleClock blankTemplateStore
               \<lparr> d_templateId = Some 4, d_productIds = [], d_customerIds = [1] \<rparr>))
     = [''Default notification message'']
   \<and> ''Default notification message'' \<noteq> ([] :: string)"
  by (simp add: created_bodies blankTemplateStore_fields resolveTemplate_def firstProduct_def
      resolvedCustomers_def getCustomer_def sample_customers notificationBodyOf_def)

theorem body_of_created_notifications_witness:
  "map n_notificationBody
     (snd (createNotifications sampleClock blankTemplateStore
             \<lparr> d_templateId = None, d_productIds = [1], d_customerIds = [1, 999] \<rparr>))
   = [''Default notification message'']
   \<and> map n_notificationBody
     (snd (createNotifications sampleClock blankTemplateStore
             \<lparr> d_templateId = Some 4, d_productIds = [1], d_customerIds = [2] \<rparr>))
   = [[]]
   \<and> map n_notificationBody
     (snd (createNotifications sampleClock blankTemplateStore
             \<lparr> d_templateId = Some 4, d_productIds = [7], d_customerIds = [2] \<rparr>))
   = [''Default notification message'']"
proof -
  let ?d1 = "\<lparr> d_templateId = None, d_productIds = [1], d_customerIds = [1, 999] \<rparr>"
  let ?d2 = "\<lparr> d_templateId = Some 4, d_productIds = [1], d_customerIds = [2] \<rparr>"
  let ?d3 = "\<lparr> d_templateId = Some 4, d_productIds = [7], d_customerIds = [2] \<rparr>"
  let ?tpl = "\<lparr> t_id = 4, t_name = ''Blank'', t_template = [], t_description = None,
                t_isDefault = 0, t_createdAt = 1700000000500 \<rparr>"
  have len: "length (snd (createNotifications sampleClock blankTemplateStore ?d1)) = 1"
    "length (snd (createNotifications sampleClock blankTemplateStore ?d3)) = 1"
    using length_map [of n_notificationBody "snd (createNotifications sampleClock blankTemplateStore ?d1)"]
      length_map [of n_notificationBody "snd (createNotifications sampleClock blankTemplateStore ?d3)"]
    by (simp_all add: created_bodies resolvedCustomers_def getCustomer_def
        blankTemplateStore_fields sample_customers)
  have one: "\<forall>n\<in>set ns. f n = b \<Longrightarrow> length ns = 1 \<Longrightarrow> map f ns = [b]" for ns :: "Notification list" and f :: "Notification \<Rightarrow> string" and b
    by (cases ns) auto
  have b1: "map n_notificationBody (snd (createNotifications sampleClock blankTemplateStore ?d1))
            = [''Default notification message'']"
    using body_of_created_notifications [of ?d1 blankTemplateStore sampleClock 4 ?tpl 1 "[]"
        "the (getProduct blankTemplateStore 1)"]
    by (intro one len) simp
  have b3: "map n_notificationBody (snd (createNotifications sampleClock blankTemplateStore ?d3))
            = [''Default notification message'']"
    using body_of_created_notifications [of ?d3 blankTemplateStore sampleClock 4 ?tpl 7 "[]"
        "the (getProduct blankTemplateStore 1)"]
    by (intro one len) (simp add: blankTemplateStore_fields getProduct_def sample_products)
  have b2: "map n_notificationBody (snd (createNotifications sampleClock blankTemplateStore ?d2))
            = [[]]"
    using body_of_created_notifications [of ?d2 blankTemplateStore sampleClock 4 ?tpl 1 "[]"
        "the (getProduct blankTemplateStore 1)"]
    by (simp add: blankTemplateStore_fields getProduct_def getCustomer_def sample_products
        sample_customers interpolate_def replaceAll_def)
  from b1 b2 b3 show ?thesis by simp
qed

section \<open>Creating notifications through the API\<close>

lemma post_notifications_rejected:
  assumes "rb_productIds body = None \<or> rb_productIds body = Some []
           \<or> rb_customerIds body = None \<or> rb_customerIds body = Some []
           \<or> (\<exists>pids. rb_productIds body = Some pids \<and> (\<exists>i\<in>set pids. getProduct s i = None))
           \<or> (\<exists>cids. rb_customerIds body = Some cids \<and> (\<exists>i\<in>set cids. getCustomer s i = None))
           \<or> (\<exists>t. rb_templateId body = Some t \<and> t \<noteq> 0 \<and> getNotificationTemplate s t = None)"
  shows "fst (post_api_notifications clock s body) = s
         \<and> res_status (snd (post_api_notifications clock s body)) = 400"
proof (cases "rb_productIds body")
  case None
  then show ?thesis by (simp add: post_api_notifications_def)
next
  case pids: (Some pids)
  show ?thesis
  proof (cases "rb_customerIds body")
    case None
    with pids show ?thesis by (simp add: post_api_notifications_def)
  next
    case cids: (Some cids)
    show ?thesis
    proof (cases "pids = [] \<or> cids = []")
      case True
      with pids cids show ?thesis by (auto simp: post_api_notifications_def)
    next
      case nonempty: False
      show ?thesis
      proof (cases "find (\<lambda>productId. getProduct s productId = None) pids")
        case (Some productId)
        with pids cids nonempty show ?thesis by (simp add: post_api_notifications_def)
      next
        case noP: None
        show ?thesis
        proof (cases "find (\<lambda>customerId. getCustomer s customerId = None) cids")
          case (Some customerId)
          with pids cids nonempty noP show ?thesis by (simp add: post_api_notifications_def)
        next
          case noC: None
          from noP noC have "\<not> (\<exists>i\<in>set pids. getProduct s i = None)"
            and "\<not> (\<exists>i\<in>set cids. getCustomer s i = None)"
            by (auto simp: find_None_iff)
          with assms pids cids nonempty
          obtain t where "rb_templateId body = Some t" "t \<noteq> 0" "getNotificationTemplate s t = None"
            by auto
          with pids cids nonempty noP noC show ?thesis
            by (simp add: post_api_notifications_def)
        qed
      qed
    qed
  qed
qed

lemma post_notifications_accepted:
  assumes "rb_productIds body = Some pids" and "pids \<noteq> []"
    and "rb_customerIds body = Some cids" and "cids \<noteq> []"
    and "\<forall>i\<in>set pids. getProduct s i \<noteq> None" and "\<forall>i\<in>set cids. getCustomer s i \<noteq> None"
    and "rb_templateId body = None \<or> rb_templateId body = Some 0
         \<or> (\<exists>t. rb_templateId body = Some t \<and> getNotificationTemplate s t \<noteq> None)"
  shows "post_api_notifications clock s body
         = (fst (createNotifications clock s
                   \<lparr> d_templateId = rb_templateId body, d_productIds = pids,
                     d_customerIds = cids \<rparr>),
            Response 201 (NotificationsJson
              (snd (createNotifications clock s
                      \<lparr> d_templateId = rb_templateId body, d_productIds = pids,
                        d_customerIds = cids \<rparr>))))"
proof -
  from assms(5) have noP: "find (\<lambda>productId. getProduct s productId = None) pids = None"
    by (auto simp: find_None_iff)
  from assms(6) have noC: "find (\<lambda>customerId. getCustomer s customerId = None) cids = None"
    by (auto simp: find_None_iff)
  show ?thesis
  proof (cases "rb_templateId body")
    case None
    with assms(1-4) noP noC show ?thesis
      by (simp add: post_api_notifications_def split_beta)
  next
    case (Some t)
    with assms(7) have "t = 0 \<or> getNotificationTemplate s t \<noteq> None" by auto
    with Some assms(1-4) noP noC show ?thesis
      by (auto simp: post_api_notifications_def split_beta)
  qed
qed

text \<open>
  C7, as the code has it. POST /api/notifications answers 400 and leaves the store as it
  was when \<open>productIds\<close> or \<open>customerIds\<close> is missing, not an array or empty, when
  a product or customer identifier has no stored record, or when a template identifier
  other than 0 has no stored template. When both lists are non-empty, all their
  identifiers have records, and the template identifier is left out, is 0, or has a
  stored template, it answers 201 with the list that \<open>createNotifications\<close> returns.
\<close>

theorem post_notifications_validates:
  "((rb_productIds body = None \<or> rb_productIds body = Some []
      \<or> rb_customerIds body = None \<or> rb_customerIds body = Some []
      \<or> (\<exists>pids. rb_productIds body = Some pids \<and> (\<exists>i\<in>set pids. getProduct s i = None))
      \<or> (\<exists>cids. rb_customerIds body = Some cids \<and> (\<exists>i\<in>set cids. getCustomer s i = None))
      \<or> (\<exists>t. rb_templateId body = Some t \<and> t \<noteq> 0 \<and> getNotificationTemplate s t = None))
     \<longrightarrow> fst (post_api_notifications clock s body) = s
          \<and> res_status (snd (post_api_notifications clock s body)) = 400)
   \<and> ((rb_productIds body = Some pids \<and> pids \<noteq> []
        \<and> rb_customerIds body = Some cids \<and> cids \<noteq> []
        \<and> (\<forall>i\<in>set pids. getProduct s i \<noteq> None) \<and> (\<forall>i\<in>set cids. getCustomer s i \<noteq> None)
        \<and> (rb_templateId body = None \<or> rb_templateId body = Some 0
            \<or> (\<exists>t. rb_templateId body = Some t \<and> getNotificationTemplate s t \<noteq> None)))
       \<longrightarrow> post_api_notifications clock s body
            = (fst (createNotifications clock s
                      \<lparr> d_templateId = rb_templateId body, d_productIds = pids,
                        d_customerIds = cids \<rparr>),
               Response 201 (NotificationsJson
                 (snd (createNotifications clock s
                         \<lparr> d_templateId = rb_templateId body, d_productIds = pids,
                           d_customerIds = cids \<rparr>)))))"
  using post_notifications_rejected [of body s clock]
    post_notifications_accepted [of body pids cids s clock]
  by blast

lemma sample_template_0: "getNotificationTemplate (newMemStorage sampleClock) 0 = None"
  by (simp add: getNotificationTemplate_def jsmap_get_None_iff jsmap_keys_def
      sample_template_keys)

lemma sample_template_9: "getNotificationTemplate (newMemStorage sampleClock) 9 = None"
  by (simp add: getNotificationTemplate_def jsmap_get_None_iff jsmap_keys_def
      sample_template_keys)

text \<open>
  The claim as stated fails: the template identifier 0 is not in the store, and the
  request is answered 201 with a created notification.
\<close>

theorem template_zero_counterexample:
  "getNotificationTemplate (newMemStorage sampleClock) 0 = None
   \<and> res_status (snd (post_api_notifications sampleClock (newMemStorage sampleClock)
                        \<lparr> rb_templateId = Some 0, rb_productIds = Some [1],
                          rb_customerIds = Some [1] \<rparr>)) = 201
   \<and> map n_customerId
       (snd (createNotifications sampleClock (newMemStorage sampleClock)
               \<lparr> d_templateId = Some 0, d_productIds = [1], d_customerIds = [1] \<rparr>)) = [1]"
proof -
  have "post_api_notifications sampleClock (newMemStorage sampleClock)
          \<lparr> rb_templateId = Some 0, rb_productIds = Some [1], rb_customerIds = Some [1] \<rparr>
        = (fst (createNotifications sampleClock (newMemStorage sampleClock)
                  \<lparr> d_templateId = Some 0, d_productIds = [1], d_customerIds = [1] \<rparr>),
           Response 201 (NotificationsJson
             (snd (createNotifications sampleClock (newMemStorage sampleClock)
                     \<lparr> d_templateId = Some 0, d_productIds = [1], d_customerIds = [1] \<rparr>))))"
    by (simp add: post_api_notifications_def getProduct_def getCustomer_def sample_products
        sample_customers split_beta)
  moreover have "map n_customerId
       (snd (createNotifications sampleClock (newMemStorage sampleClock)
               \<lparr> d_templateId = Some 0, d_productIds = [1], d_customerIds = [1] \<rparr>))
     = map c_id (resolvedCustomers (newMemStorage sampleClock) [1])"
    by (simp only: createNotifications_result notificationsOf_fields
        CreateNotificationsData.simps)
  ultimately show ?thesis
    by (simp add: sample_template_0 resolvedCustomers_def getCustomer_def sample_customers)
qed

theorem post_notifications_validates_witness:
  "fst (post_api_notifications sampleClock (newMemStorage sampleClock)
          \<lparr> rb_templateId = Some 9, rb_productIds = Some [1], rb_customerIds = Some [1, 2] \<rparr>)
   = newMemStorage sampleClock
   \<and> res_status (snd (post_api_notifications sampleClock (newMemStorage sampleClock)
          \<lparr> rb_templateId = Some 9, rb_productIds = Some [1], rb_customerIds = Some [1, 2] \<rparr>))
     = 400
   \<and> res_status (snd (post_api_notifications sampleClock (newMemStorage sampleClock)
          \<lparr> rb_templateId = None, rb_productIds = Some [1], rb_customerIds = Some [1, 999] \<rparr>))
     = 400
   \<and> res_status (snd (post_api_notifications sampleClock (newMemStorage sampleClock)
          \<lparr> rb_templateId = None, rb_productIds = Some [1], rb_customerIds = Some [1, 2] \<rparr>))
     = 201"
  using post_notifications_validates
      [of "\<lparr> rb_templateId = Some 9, rb_productIds = Some [1], rb_customerIds = Some [1, 2] \<rparr>"
          "newMemStorage sampleClock" sampleClock "[1]" "[1, 2]"]
    post_notifications_validates
      [of "\<lparr> rb_templateId = None, rb_productIds = Some [1], rb_customerIds = Some [1, 999] \<rparr>"
          "newMemStorage sampleClock" sampleClock "[1]" "[1, 999]"]
    post_notifications_validates
      [of "\<lparr> rb_templateId = None, rb_productIds = Some [1], rb_customerIds = Some [1, 2] \<rparr>"
          "newMemStorage sampleClock" sampleClock "[1]" "[1, 2]"]
  by (simp add: sample_template_9 getProduct_def getCustomer_def sample_products sample_customers)

section \<open>Email uniqueness\<close>

text \<open>
  C4. The schema declares the email column unique and POST /api/customers checks it, but
  PUT /api/customers/:id writes the merged record without the check. On the
  constructor's store, changing the email of customer 2 to the email of customer 1 is
  answered 200, and two stored customers then have the same email.
\<close>

theorem put_customer_duplicates_email:
  "res_status (snd (put_api_customers_id (newMemStorage sampleClock) (Some 2)
                      \<lparr> rb_name = Missing, rb_email = Valid ''john@example.com'',
                        rb_phoneNumber = Missing \<rparr>)) = 200
   \<and> map (\<lambda>c. (c_id c, c_email c))
         (getAllCustomers
            (fst (put_api_customers_id (newMemStorage sampleClock) (Some 2)
                    \<lparr> rb_name = Missing, rb_email = Valid ''john@example.com'',
                      rb_phoneNumber = Missing \<rparr>)))
     = [(1, ''john@example.com''), (2, ''john@example.com''), (3, ''mike@example.com''),
        (4, ''emily@example.com'')]
   \<and> \<not> distinct (map c_email
         (getAllCustomers
            (fst (put_api_customers_id (newMemStorage sampleClock) (Some 2)
                    \<lparr> rb_name = Missing, rb_email = Valid ''john@example.com'',
                      rb_phoneNumber = Missing \<rparr>))))"
  by (simp add: put_api_customers_id_def insertCustomerSchema_partial_parse_def
      optionalField_def updateCustomer_def mergeCustomer_def sample_customers
      getAllCustomers_def jsmap_values_def Let_def)

section \<open>Keys and identifiers\<close>

lemma ball_jsmap_set:
  assumes "\<forall>e\<in>set m. P e" and "P (k, v)"
  shows "\<forall>e\<in>set (jsmap_set k v m). P e"
proof
  fix e assume "e \<in> set (jsmap_set k v m)"
  then have "e = (k, v) \<or> e \<in> set m" by (rule jsmap_set_cases)
  with assms show "P e" by auto
qed

lemma ball_jsmap_remove: "\<forall>e\<in>set m. P e \<Longrightarrow> \<forall>e\<in>set (jsmap_remove k m). P e"
  using jsmap_remove_subset by blast

lemma ball_fold_set:
  "\<forall>e\<in>set m. P e \<Longrightarrow> \<forall>n\<in>set ns. P (n_id n, n) \<Longrightarrow>
   \<forall>e\<in>set (fold (\<lambda>n. jsmap_set (n_id n) n) ns m). P e"
proof (induction ns arbitrary: m)
  case Nil
  then show ?case by simp
next
  case (Cons n ns)
  from Cons.prems have "\<forall>e\<in>set (jsmap_set (n_id n) n m). P e"
    by (intro ball_jsmap_set) auto
  with Cons show ?case by simp
qed

lemma stored_id_is_key:
  "\<forall>e\<in>set m. (\<lambda>(k, v). f v = k) e \<Longrightarrow> jsmap_get m i = Some v \<Longrightarrow> f v = i"
proof -
  assume a: "\<forall>e\<in>set m. (\<lambda>(k, v). f v = k) e" and "jsmap_get m i = Some v"
  then have "(i, v) \<in> set m" by (simp add: jsmap_get_Some_mem)
  with a have "(\<lambda>(k, v). f v = k) (i, v)" by (rule bspec)
  then show ?thesis by simp
qed

lemma keysMatchIds_parts:
  "keysMatchIds s \<Longrightarrow> \<forall>e\<in>set (customers s). (\<lambda>(k, c). c_id c = k) e"
  "keysMatchIds s \<Longrightarrow> \<forall>e\<in>set (products s). (\<lambda>(k, p). p_id p = k) e"
  "keysMatchIds s \<Longrightarrow> \<forall>e\<in>set (notifications s). (\<lambda>(k, n). n_id n = k) e"
  "keysMatchIds s \<Longrightarrow> \<forall>e\<in>set (notificationTemplates s). (\<lambda>(k, t). t_id t = k) e"
  by (simp_all add: keysMatchIds_def)

lemma keysMatchIds_customers:
  "keysMatchIds s \<Longrightarrow> \<forall>e\<in>set m. (\<lambda>(k, c). c_id c = k) e \<Longrightarrow>
   keysMatchIds (s\<lparr> customers := m \<rparr>) \<and> keysMatchIds (s\<lparr> currentCustomerId := j, customers := m \<rparr>)"
  by (simp add: keysMatchIds_def)

lemma keysMatchIds_products:
  "keysMatchIds s \<Longrightarrow> \<forall>e\<in>set m. (\<lambda>(k, p). p_id p = k) e \<Longrightarrow>
   keysMatchIds (s\<lparr> products := m \<rparr>) \<and> keysMatchIds (s\<lparr> currentProductId := j, products := m \<rparr>)"
  by (simp add: keysMatchIds_def)

lemma keysMatchIds_notifications:
  "keysMatchIds s \<Longrightarrow> \<forall>e\<in>set m. (\<lambda>(k, n). n_id n = k) e \<Longrightarrow>
   keysMatchIds (s\<lparr> notifications := m \<rparr>)
   \<and> keysMatchIds (s\<lparr> currentNotificationId := j, notifications := m \<rparr>)"
  by (simp add: keysMatchIds_def)

lemma keysMatchIds_notificationTemplates:
  "keysMatchIds s \<Longrightarrow> \<forall>e\<in>set m. (\<lambda>(k, t). t_id t = k) e \<Longrightarrow>
   keysMatchIds (s\<lparr> notificationTemplates := m \<rparr>)
   \<and> keysMatchIds (s\<lparr> currentNotificationTemplateId := j, notificationTemplates := m \<rparr>)"
  by (simp add: keysMatchIds_def)

lemma keysMatchIds_applyOp:
  assumes "keysMatchIds s"
  shows "keysMatchIds (applyOp x s)"
proof (cases x)
  case (CreateCustomer c)
  show ?thesis
    unfolding CreateCustomer
    by (simp add: createCustomer_def Let_def)
       (intro keysMatchIds_customers [THEN conjunct2] assms ball_jsmap_set
          keysMatchIds_parts, simp)
next
  case (UpdateCustomer i u)
  show ?thesis
  proof (cases "jsmap_get (customers s) i")
    case None
    with assms UpdateCustomer show ?thesis by (simp add: updateCustomer_def)
  next
    case (Some c)
    with assms have "c_id c = i"
      using stored_id_is_key [of "customers s" c_id i c] keysMatchIds_parts(1) by simp
    then have "(\<lambda>(k, c). c_id c = k) (i, mergeCustomer c u)"
      by (simp add: mergeCustomer_def)
    then have "keysMatchIds (s\<lparr> customers := jsmap_set i (mergeCustomer c u) (customers s) \<rparr>)"
      by (intro keysMatchIds_customers [THEN conjunct1] assms ball_jsmap_set
          keysMatchIds_parts)
    with Some UpdateCustomer show ?thesis
      by (simp add: updateCustomer_def Let_def)
  qed
next
  case (DeleteCustomer i)
  show ?thesis
    unfolding DeleteCustomer
    by (simp add: deleteCustomer_def jsmap_delete_def)
       (intro keysMatchIds_customers [THEN conjunct1] assms ball_jsmap_remove
          keysMatchIds_parts)
next
  case (CreateProduct p)
  show ?thesis
    unfolding CreateProduct
    by (simp add: createProduct_def Let_def)
       (intro keysMatchIds_products [THEN conjunct2] assms ball_jsmap_set
          keysMatchIds_parts, simp)
next
  case (UpdateProduct i u)
  show ?thesis
  proof (cases "jsmap_get (products s) i")
    case None
    with assms UpdateProduct show ?thesis by (simp add: updateProduct_def)
  next
    case (Some p)
    with assms have "p_id p = i"
      using stored_id_is_key [of "products s" p_id i p] keysMatchIds_parts(2) by simp
    then have "(\<lambda>(k, p). p_id p = k) (i, mergeProduct p u)"
      by (simp add: mergeProduct_def)
    then have "keysMatchIds (s\<lparr> products := jsmap_set i (mergeProduct p u) (products s) \<rparr>)"
      by (intro keysMatchIds_products [THEN conjunct1] assms ball_jsmap_set
          keysMatchIds_parts)
    with Some UpdateProduct show ?thesis
      by (simp add: updateProduct_def Let_def)
  qed
next
  case (DeleteProduct i)
  show ?thesis
    unfolding DeleteProduct
    by (simp add: deleteProduct_def jsmap_delete_def)
       (intro keysMatchIds_products [THEN conjunct1] assms ball_jsmap_remove
          keysMatchIds_parts)
next
  case (CreateNotifications clock d)
  have "\<forall>e\<in>set (fold (\<lambda>n. jsmap_set (n_id n) n) (snd (createNotifications clock s d))
                   (notifications s)). (\<lambda>(k, n). n_id n = k) e"
    by (intro ball_fold_set keysMatchIds_parts assms) simp
  then have "keysMatchIds (s\<lparr> currentNotificationId :=
               currentNotificationId s + int (length (snd (createNotifications clock s d))),
             notifications := fold (\<lambda>n. jsmap_set (n_id n) n)
               (snd (createNotifications clock s d)) (notifications s) \<rparr>)"
    by (intro keysMatchIds_notifications [THEN conjunct2] assms)
  then show ?thesis
    unfolding CreateNotifications applyOp.simps
    by (subst createNotifications_state)
next
  case (DeleteNotification i)
  show ?thesis
    unfolding DeleteNotification
    by (simp add: deleteNotification_def jsmap_delete_def)
       (intro keysMatchIds_notifications [THEN conjunct1] assms ball_jsmap_remove
          keysMatchIds_parts)
next
  case (CreateNotificationTemplate now t)
  show ?thesis
    unfolding CreateNotificationTemplate
    by (simp add: createNotificationTemplate_def Let_def)
       (intro keysMatchIds_notificationTemplates [THEN conjunct2] assms ball_jsmap_set
          keysMatchIds_parts, simp)
next
  case (UpdateNotificationTemplate i u)
  show ?thesis
  proof (cases "jsmap_get (notificationTemplates s) i")
    case None
    with assms UpdateNotificationTemplate show ?thesis
      by (simp add: updateNotificationTemplate_def)
  next
    case (Some t)
    with assms have "t_id t = i"
      using stored_id_is_key [of "notificationTemplates s" t_id i t] keysMatchIds_parts(4)
      by simp
    then have "(\<lambda>(k, t). t_id t = k) (i, mergeNotificationTemplate t u)"
      by (simp add: mergeNotificationTemplate_def)
    then have "keysMatchIds (s\<lparr> notificationTemplates :=
                 jsmap_set i (mergeNotificationTemplate t u) (notificationTemplates s) \<rparr>)"
      by (intro keysMatchIds_notificationTemplates [THEN conjunct1] assms ball_jsmap_set
          keysMatchIds_parts)
    with Some UpdateNotificationTemplate show ?thesis
      by (simp add: updateNotificationTemplate_def Let_def)
  qed
next
  case (DeleteNotificationTemplate i)
  show ?thesis
    unfolding DeleteNotificationTemplate
    by (simp add: deleteNotificationTemplate_def jsmap_delete_def)
       (intro keysMatchIds_notificationTemplates [THEN conjunct1] assms ball_jsmap_remove
          keysMatchIds_parts)
qed

lemma keysMatchIds_runOps: "keysMatchIds s \<Longrightarrow> keysMatchIds (runOps ops s)"
  by (induction ops arbitrary: s) (auto simp: keysMatchIds_applyOp)

lemma keysMatchIds_empty: "keysMatchIds emptyStorage"
  by (simp add: keysMatchIds_def emptyStorage_def)

lemma update_returns_requested_id:
  assumes "keysMatchIds s"
  shows "snd (updateCustomer s i uc) = Some c \<Longrightarrow> c_id c = i"
    and "snd (updateProduct s i up) = Some p \<Longrightarrow> p_id p = i"
    and "snd (updateNotificationTemplate s i ut) = Some t \<Longrightarrow> t_id t = i"
proof -
  show "c_id c = i" if "snd (updateCustomer s i uc) = Some c"
  proof (cases "jsmap_get (customers s) i")
    case None
    with that show ?thesis by (simp add: updateCustomer_def)
  next
    case (Some c0)
    with assms have "c_id c0 = i"
      using stored_id_is_key [of "customers s" c_id i c0] by (simp add: keysMatchIds_def)
    with that Some show ?thesis
      by (auto simp: updateCustomer_def Let_def mergeCustomer_def)
  qed
  show "p_id p = i" if "snd (updateProduct s i up) = Some p"
  proof (cases "jsmap_get (products s) i")
    case None
    with that show ?thesis by (simp add: updateProduct_def)
  next
    case (Some p0)
    with assms have "p_id p0 = i"
      using stored_id_is_key [of "products s" p_id i p0] by (simp add: keysMatchIds_def)
    with that Some show ?thesis
      by (auto simp: updateProduct_def Let_def mergeProduct_def)
  qed
  show "t_id t = i" if "snd (updateNotificationTemplate s i ut) = Some t"
  proof (cases "jsmap_get (notificationTemplates s) i")
    case None
    with that show ?thesis by (simp add: updateNotificationTemplate_def)
  next
    case (Some t0)
    with assms have "t_id t0 = i"
      using stored_id_is_key [of "notificationTemplates s" t_id i t0]
      by (simp add: keysMatchIds_def)
    with that Some show ?thesis
      by (auto simp: updateNotificationTemplate_def Let_def mergeNotificationTemplate_def)
  qed
qed

text \<open>
  C10. In every state that a history of store operations reaches from the constructor's
  empty maps, each stored record of each kind has the key it is stored under as its
  \<open>id\<close>; and an update of a customer, product or template that returns an entity
  returns one whose \<open>id\<close> is the requested identifier, stored under that identifier.
\<close>

theorem keys_are_ids:
  "keysMatchIds (runOps ops emptyStorage)
   \<and> (snd (updateCustomer (runOps ops emptyStorage) i uc) = Some c \<longrightarrow>
        c_id c = i \<and> getCustomer (fst (updateCustomer (runOps ops emptyStorage) i uc)) i = Some c)
   \<and> (snd (updateProduct (runOps ops emptyStorage) i up) = Some p \<longrightarrow>
        p_id p = i \<and> getProduct (fst (updateProduct (runOps ops emptyStorage) i up)) i = Some p)
   \<and> (snd (updateNotificationTemplate (runOps ops emptyStorage) i ut) = Some t \<longrightarrow>
        t_id t = i
        \<and> getNotificationTemplate (fst (updateNotificationTemplate (runOps ops emptyStorage) i ut)) i
            = Some t)"
proof -
  let ?s = "runOps ops emptyStorage"
  have inv: "keysMatchIds ?s"
    by (rule keysMatchIds_runOps) (rule keysMatchIds_empty)
  have "getCustomer (fst (updateCustomer ?s i uc)) i = Some c"
    if "snd (updateCustomer ?s i uc) = Some c"
    using that by (auto simp: updateCustomer_def getCustomer_def Let_def jsmap_get_set
        split: option.splits)
  moreover have "getProduct (fst (updateProduct ?s i up)) i = Some p"
    if "snd (updateProduct ?s i up) = Some p"
    using that by (auto simp: updateProduct_def getProduct_def Let_def jsmap_get_set
        split: option.splits)
  moreover have "getNotificationTemplate (fst (updateNotificationTemplate ?s i ut)) i = Some t"
    if "snd (updateNotificationTemplate ?s i ut) = Some t"
    using that by (auto simp: updateNotificationTemplate_def getNotificationTemplate_def Let_def
        jsmap_get_set split: option.splits)
  ultimately show ?thesis
    using inv update_returns_requested_id [OF inv] by blast
qed

lemma shortHistory_customers:
  "customers (runOps shortHistory emptyStorage)
   = [(2, \<lparr> c_id = 2, c_name = ''Robert'', c_email = ''bob@example.com'',
           c_phoneNumber = ''2'' \<rparr>)]"
  by code_simp

theorem keys_are_ids_witness:
  "map (\<lambda>(k, c). (k, c_id c)) (customers (runOps shortHistory emptyStorage)) = [(2, 2)]
   \<and> keysMatchIds (runOps shortHistory emptyStorage)
   \<and> snd (updateCustomer (runOps shortHistory emptyStorage) 2
             \<lparr> uc_name = None, uc_email = Some ''rob@example.com'', uc_phoneNumber = None \<rparr>)
       = Some \<lparr> c_id = 2, c_name = ''Robert'', c_email = ''rob@example.com'',
                 c_phoneNumber = ''2'' \<rparr>
   \<and> getCustomer
         (fst (updateCustomer (runOps shortHistory emptyStorage) 2
                 \<lparr> uc_name = None, uc_email = Some ''rob@example.com'',
                   uc_phoneNumber = None \<rparr>)) 2
       = Some \<lparr> c_id = 2, c_name = ''Robert'', c_email = ''rob@example.com'',
                 c_phoneNumber = ''2'' \<rparr>"
  using keys_are_ids
    [of shortHistory 2
        "\<lparr> uc_name = None, uc_email = Some ''rob@example.com'', uc_phoneNumber = None \<rparr>"
        "\<lparr> c_id = 2, c_name = ''Robert'', c_email = ''rob@example.com'',
           c_phoneNumber = ''2'' \<rparr>"]
  by (simp add: shortHistory_customers updateCustomer_def mergeCustomer_def Let_def
      getCustomer_def)

section \<open>Identifiers are assigned in sequence\<close>

lemma count_up_append:
  "map (\<lambda>j. a + int j) [0..<m] @ map (\<lambda>j. a + int m + int j) [0..<n]
   = map (\<lambda>j. a + int j) [0..<m + n]"
proof -
  have "[0..<m + n] = [0..<m] @ [m..<m + n]"
    using upt_add_eq_append [of 0 m n] by simp
  also have "[m..<m + n] = map (\<lambda>j. j + m) [0..<n]"
    by (simp add: map_add_upt add.commute)
  finally show ?thesis by (simp add: comp_def add.commute add.left_commute)
qed

lemma counters_after_op:
  "currentCustomerId (fst (createCustomer s c)) = currentCustomerId s + 1"
  "currentCustomerId (fst (updateCustomer s i uc)) = currentCustomerId s"
  "currentCustomerId (fst (deleteCustomer s i)) = currentCustomerId s"
  "currentCustomerId (fst (createProduct s p)) = currentCustomerId s"
  "currentCustomerId (fst (updateProduct s i up)) = currentCustomerId s"
  "currentCustomerId (fst (deleteProduct s i)) = currentCustomerId s"
  "currentCustomerId (fst (deleteNotification s i)) = currentCustomerId s"
  "currentCustomerId (fst (createNotificationTemplate now s t)) = currentCustomerId s"
  "currentCustomerId (fst (updateNotificationTemplate s i ut)) = currentCustomerId s"
  "currentCustomerId (fst (deleteNotificationTemplate s i)) = currentCustomerId s"
  "currentProductId (fst (createCustomer s c)) = currentProductId s"
  "currentProductId (fst (updateCustomer s i uc)) = currentProductId s"
  "currentProductId (fst (deleteCustomer s i)) = currentProductId s"
  "currentProductId (fst (createProduct s p)) = currentProductId s + 1"
  "currentProductId (fst (updateProduct s i up)) = currentProductId s"
  "currentProductId (fst (deleteProduct s i)) = currentProductId s"
  "currentProductId (fst (deleteNotification s i)) = currentProductId s"
  "currentProductId (fst (createNotificationTemplate now s t)) = currentProductId s"
  "currentProductId (fst (updateNotificationTemplate s i ut)) = currentProductId s"
  "currentProductId (fst (deleteNotificationTemplate s i)) = currentProductId s"
  "currentNotificationId (fst (createCustomer s c)) = currentNotificationId s"
  "currentNotificationId (fst (updateCustomer s i uc)) = currentNotificationId s"
  "currentNotificationId (fst (deleteCustomer s i)) = currentNotificationId s"
  "currentNotificationId (fst (createProduct s p)) = currentNotificationId s"
  "currentNotificationId (fst (updateProduct s i up)) = currentNotificationId s"
  "currentNotificationId (fst (deleteProduct s i)) = currentNotificationId s"
  "currentNotificationId (fst (deleteNotification s i)) = currentNotificationId s"
  "currentNotificationId (fst (createNotificationTemplate now s t)) = currentNotificationId s"
  "currentNotificationId (fst (updateNotificationTemplate s i ut)) = currentNotificationId s"
  "currentNotificationId (fst (deleteNotificationTemplate s i)) = currentNotificationId s"
  "currentNotificationTemplateId (fst (createCustomer s c)) = currentNotificationTemplateId s"
  "currentNotificationTemplateId (fst (updateCustomer s i uc)) = currentNotificationTemplateId s"
  "currentNotificationTemplateId (fst (deleteCustomer s i)) = currentNotificationTemplateId s"
  "currentNotificationTemplateId (fst (createProduct s p)) = currentNotificationTemplateId s"
  "currentNotificationTemplateId (fst (updateProduct s i up)) = currentNotificationTemplateId s"
  "currentNotificationTemplateId (fst (deleteProduct s i)) = currentNotificationTemplateId s"
  "currentNotificationTemplateId (fst (deleteNotification s i)) = currentNotificationTemplateId s"
  "currentNotificationTemplateId (fst (createNotificationTemplate now s t))
   = currentNotificationTemplateId s + 1"
  "currentNotificationTemplateId (fst (updateNotificationTemplate s i ut))
   = currentNotificationTemplateId s"
  "currentNotificationTemplateId (fst (deleteNotificationTemplate s i))
   = currentNotificationTemplateId s"
  by (simp_all add: createCustomer_def updateCustomer_def deleteCustomer_def
      createProduct_def updateProduct_def deleteProduct_def deleteNotification_def
      createNotificationTemplate_def updateNotificationTemplate_def
      deleteNotificationTemplate_def Let_def split_beta split: option.splits)

lemma counters_after_createNotifications:
  "currentCustomerId (fst (createNotifications clock s d)) = currentCustomerId s"
  "currentProductId (fst (createNotifications clock s d)) = currentProductId s"
  "currentNotificationId (fst (createNotifications clock s d))
   = currentNotificationId s + int (length (snd (createNotifications clock s d)))"
  "currentNotificationTemplateId (fst (createNotifications clock s d))
   = currentNotificationTemplateId s"
  by (subst createNotifications_state, simp)+

lemma assigned_ids_of_create:
  "c_id (snd (createCustomer s c)) = currentCustomerId s"
  "p_id (snd (createProduct s p)) = currentProductId s"
  "t_id (snd (createNotificationTemplate now s t)) = currentNotificationTemplateId s"
  by (simp_all add: createCustomer_def createProduct_def createNotificationTemplate_def Let_def)

lemma assignedBy_counts:
  "assignedBy k x s = map (\<lambda>j. counter k s + int j) [0..<length (assignedBy k x s)]"
  "counter k (applyOp x s) = counter k s + int (length (assignedBy k x s))"
  using createNotifications_ids
  by (cases x; cases k;
      simp add: counters_after_op counters_after_createNotifications assigned_ids_of_create)+

lemma assigned_counts:
  "assigned k ops s = map (\<lambda>j. counter k s + int j) [0..<length (assigned k ops s)]
   \<and> counter k (runOps ops s) = counter k s + int (length (assigned k ops s))"
proof (induction ops arbitrary: s)
  case Nil
  show ?case by simp
next
  case (Cons x xs)
  let ?a = "length (assignedBy k x s)" and ?b = "length (assigned k xs (applyOp x s))"
  have "assigned k (x # xs) s
        = map (\<lambda>j. counter k s + int j) [0..<?a]
          @ map (\<lambda>j. counter k s + int ?a + int j) [0..<?b]"
    using assignedBy_counts [of k x s] Cons.IH [of "applyOp x s"] by simp
  also have "\<dots> = map (\<lambda>j. counter k s + int j) [0..<?a + ?b]"
    by (rule count_up_append)
  finally have "assigned k (x # xs) s
        = map (\<lambda>j. counter k s + int j) [0..<length (assigned k (x # xs) s)]"
    by simp
  moreover have "counter k (runOps (x # xs) s)
        = counter k s + int (length (assigned k (x # xs) s))"
    using assignedBy_counts(2) [of k x s] Cons.IH [of "applyOp x s"] by simp
  ultimately show ?case by blast
qed

lemma jsmap_keys_remove: "set (jsmap_keys (jsmap_remove k m)) \<subseteq> set (jsmap_keys m)"
proof
  fix j assume "j \<in> set (jsmap_keys (jsmap_remove k m))"
  then have "jsmap_get (jsmap_remove k m) j \<noteq> None"
    by (simp add: jsmap_get_None_iff)
  then have "jsmap_get m j \<noteq> None"
    by (simp add: jsmap_get_remove split: if_splits)
  then show "j \<in> set (jsmap_keys m)"
    by (simp add: jsmap_get_None_iff)
qed

lemma jsmap_keys_fold:
  "set (jsmap_keys (fold (\<lambda>n. jsmap_set (n_id n) n) ns m)) = set (jsmap_keys m) \<union> n_id ` set ns"
  by (induction ns arbitrary: m) (auto simp: jsmap_keys_set)

lemma jsmap_keys_overwrite:
  "jsmap_get m i = Some v \<Longrightarrow> set (jsmap_keys (jsmap_set i w m)) = set (jsmap_keys m)"
  using jsmap_get_None_iff [of m i] by (auto simp: jsmap_keys_set)

lemma keys_after_op:
  "customers (fst (createCustomer s c))
   = jsmap_set (currentCustomerId s) (snd (createCustomer s c)) (customers s)"
  "products (fst (createProduct s p))
   = jsmap_set (currentProductId s) (snd (createProduct s p)) (products s)"
  "notificationTemplates (fst (createNotificationTemplate now s t))
   = jsmap_set (currentNotificationTemplateId s) (snd (createNotificationTemplate now s t))
       (notificationTemplates s)"
  "notifications (fst (createNotifications clock s d))
   = fold (\<lambda>n. jsmap_set (n_id n) n) (snd (createNotifications clock s d)) (notifications s)"
  "set (jsmap_keys (customers (fst (updateCustomer s i uc)))) = set (jsmap_keys (customers s))"
  "set (jsmap_keys (products (fst (updateProduct s i up)))) = set (jsmap_keys (products s))"
  "set (jsmap_keys (notificationTemplates (fst (updateNotificationTemplate s i ut))))
   = set (jsmap_keys (notificationTemplates s))"
  "customers (fst (deleteCustomer s i)) = jsmap_remove i (customers s)"
  "products (fst (deleteProduct s i)) = jsmap_remove i (products s)"
  "notifications (fst (deleteNotification s i)) = jsmap_remove i (notifications s)"
  "notificationTemplates (fst (deleteNotificationTemplate s i))
   = jsmap_remove i (notificationTemplates s)"
proof -
  show "notifications (fst (createNotifications clock s d))
   = fold (\<lambda>n. jsmap_set (n_id n) n) (snd (createNotifications clock s d)) (notifications s)"
    by (subst createNotifications_state) simp
qed (simp_all add: createCustomer_def updateCustomer_def deleteCustomer_def
      createProduct_def updateProduct_def deleteProduct_def deleteNotification_def
      createNotificationTemplate_def updateNotificationTemplate_def
      deleteNotificationTemplate_def jsmap_delete_def Let_def jsmap_keys_overwrite
      split: option.splits)

lemma other_maps_after_op:
  "products (fst (createCustomer s c)) = products s"
  "notifications (fst (createCustomer s c)) = notifications s"
  "notificationTemplates (fst (createCustomer s c)) = notificationTemplates s"
  "products (fst (updateCustomer s i uc)) = products s"
  "notifications (fst (updateCustomer s i uc)) = notifications s"
  "notificationTemplates (fst (updateCustomer s i uc)) = notificationTemplates s"
  "products (fst (deleteCustomer s i)) = products s"
  "notifications (fst (deleteCustomer s i)) = notifications s"
  "notificationTemplates (fst (deleteCustomer s i)) = notificationTemplates s"
  "customers (fst (createProduct s p)) = customers s"
  "notifications (fst (createProduct s p)) = notifications s"
  "notificationTemplates (fst (createProduct s p)) = notificationTemplates s"
  "customers (fst (updateProduct s i up)) = customers s"
  "notifications (fst (updateProduct s i up)) = notifications s"
  "notificationTemplates (fst (updateProduct s i up)) = notificationTemplates s"
  "customers (fst (deleteProduct s i)) = customers s"
  "notifications (fst (deleteProduct s i)) = notifications s"
  "notificationTemplates (fst (deleteProduct s i)) = notificationTemplates s"
  "customers (fst (deleteNotification s i)) = customers s"
  "products (fst (deleteNotification s i)) = products s"
  "notificationTemplates (fst (deleteNotification s i)) = notificationTemplates s"
  "customers (fst (createNotificationTemplate now s t)) = customers s"
  "products (fst (createNotificationTemplate now s t)) = products s"
  "notifications (fst (createNotificationTemplate now s t)) = notifications s"
  "customers (fst (updateNotificationTemplate s i ut)) = customers s"
  "products (fst (updateNotificationTemplate s i ut)) = products s"
  "notifications (fst (updateNotificationTemplate s i ut)) = notifications s"
  "customers (fst (deleteNotificationTemplate s i)) = customers s"
  "products (fst (deleteNotificationTemplate s i)) = products s"
  "notifications (fst (deleteNotificationTemplate s i)) = notifications s"
  by (simp_all add: createCustomer_def updateCustomer_def deleteCustomer_def
      createProduct_def updateProduct_def deleteProduct_def deleteNotification_def
      createNotificationTemplate_def updateNotificationTemplate_def
      deleteNotificationTemplate_def Let_def split_beta split: option.splits)

lemma other_maps_after_createNotifications:
  "customers (fst (createNotifications clock s d)) = customers s"
  "products (fst (createNotifications clock s d)) = products s"
  "notificationTemplates (fst (createNotifications clock s d)) = notificationTemplates s"
  by (subst createNotifications_state, simp)+

lemma storedIds_applyOp:
  "set (storedIds k (applyOp x s)) \<subseteq> set (storedIds k s) \<union> set (assignedBy k x s)"
proof (cases x)
  case (CreateCustomer c)
  then show ?thesis
    by (cases k) (auto simp: other_maps_after_op keys_after_op jsmap_keys_set
        assigned_ids_of_create)
next
  case (UpdateCustomer i u)
  then show ?thesis
    by (cases k) (simp_all add: other_maps_after_op keys_after_op)
next
  case (DeleteCustomer i)
  then show ?thesis
    by (cases k) (simp_all add: other_maps_after_op keys_after_op jsmap_keys_remove)
next
  case (CreateProduct p)
  then show ?thesis
    by (cases k) (auto simp: other_maps_after_op keys_after_op jsmap_keys_set
        assigned_ids_of_create)
next
  case (UpdateProduct i u)
  then show ?thesis
    by (cases k) (simp_all add: other_maps_after_op keys_after_op)
next
  case (DeleteProduct i)
  then show ?thesis
    by (cases k) (simp_all add: other_maps_after_op keys_after_op jsmap_keys_remove)
next
  case (CreateNotifications clock d)
  then show ?thesis
    by (cases k) (simp_all add: other_maps_after_createNotifications keys_after_op
        jsmap_keys_fold)
next
  case (DeleteNotification i)
  then show ?thesis
    by (cases k) (simp_all add: other_maps_after_op keys_after_op jsmap_keys_remove)
next
  case (CreateNotificationTemplate now t)
  then show ?thesis
    by (cases k) (auto simp: other_maps_after_op keys_after_op jsmap_keys_set
        assigned_ids_of_create)
next
  case (UpdateNotificationTemplate i u)
  then show ?thesis
    by (cases k) (simp_all add: other_maps_after_op keys_after_op)
next
  case (DeleteNotificationTemplate i)
  then show ?thesis
    by (cases k) (simp_all add: other_maps_after_op keys_after_op jsmap_keys_remove)
qed

lemma storedIds_runOps:
  "set (storedIds k (runOps ops s)) \<subseteq> set (storedIds k s) \<union> set (assigned k ops s)"
proof (induction ops arbitrary: s)
  case Nil
  show ?case by simp
next
  case (Cons x xs)
  have "set (storedIds k (runOps (x # xs) s))
        \<subseteq> set (storedIds k (applyOp x s)) \<union> set (assigned k xs (applyOp x s))"
    using Cons.IH [of "applyOp x s"] by simp
  also have "\<dots> \<subseteq> (set (storedIds k s) \<union> set (assignedBy k x s))
                    \<union> set (assigned k xs (applyOp x s))"
    using storedIds_applyOp [of k x s] by blast
  finally show ?case by (simp add: Un_assoc)
qed

lemma counter_empty: "counter k emptyStorage = 1"
  by (cases k) (simp_all add: emptyStorage_def)

lemma storedIds_empty: "storedIds k emptyStorage = []"
  by (cases k) (simp_all add: emptyStorage_def jsmap_keys_def)

lemma Max_count_up: "Max (insert 0 (set (map (\<lambda>j. 1 + int j) [0..<n]))) = int n"
proof (rule Max_eqI)
  show "finite (insert 0 (set (map (\<lambda>j. 1 + int j) [0..<n])))" by simp
  show "y \<le> int n" if "y \<in> insert 0 (set (map (\<lambda>j. 1 + int j) [0..<n]))" for y
    using that by auto
  show "int n \<in> insert 0 (set (map (\<lambda>j. 1 + int j) [0..<n]))"
  proof (cases n)
    case 0
    then show ?thesis by simp
  next
    case (Suc m)
    then have "m \<in> set [0..<n]" by simp
    then have "1 + int m \<in> (\<lambda>j. 1 + int j) ` set [0..<n]" by (rule imageI)
    with Suc show ?thesis by simp
  qed
qed

lemma sorted_count_up: "sorted_wrt (<) (map (\<lambda>j. a + int j) [0..<n])"
  by (simp add: sorted_wrt_map sorted_wrt_iff_nth_less)

text \<open>
  C6. Creating a customer and then getting the returned identifier gives the record that
  was returned, with the name, email and phone number of the input. Over any history of
  store operations from the constructor's empty maps, the identifiers assigned to each
  kind of entity are 1, 2, 3, ... in this order: strictly increasing, none assigned
  twice, whatever was deleted in between; every stored identifier is one of them; and
  the next customer gets one more than the greatest identifier assigned to a customer so
  far (1 when there is none), which is none of those assigned before.
\<close>

theorem identifiers_assigned_in_sequence:
  "getCustomer (fst (createCustomer s ins)) (c_id (snd (createCustomer s ins)))
     = Some (snd (createCustomer s ins))
   \<and> c_name (snd (createCustomer s ins)) = ic_name ins
   \<and> c_email (snd (createCustomer s ins)) = ic_email ins
   \<and> c_phoneNumber (snd (createCustomer s ins)) = ic_phoneNumber ins
   \<and> assigned k ops emptyStorage
       = map (\<lambda>j. 1 + int j) [0..<length (assigned k ops emptyStorage)]
   \<and> sorted_wrt (<) (assigned k ops emptyStorage)
   \<and> distinct (assigned k ops emptyStorage)
   \<and> set (storedIds k (runOps ops emptyStorage)) \<subseteq> set (assigned k ops emptyStorage)
   \<and> c_id (snd (createCustomer (runOps ops emptyStorage) ins))
       = Max (insert 0 (set (assigned CustomerKind ops emptyStorage))) + 1
   \<and> c_id (snd (createCustomer (runOps ops emptyStorage) ins))
       \<notin> set (assigned CustomerKind ops emptyStorage)"
proof -
  have create: "getCustomer (fst (createCustomer s ins)) (c_id (snd (createCustomer s ins)))
                  = Some (snd (createCustomer s ins))
                \<and> c_name (snd (createCustomer s ins)) = ic_name ins
                \<and> c_email (snd (createCustomer s ins)) = ic_email ins
                \<and> c_phoneNumber (snd (createCustomer s ins)) = ic_phoneNumber ins"
    by (simp add: createCustomer_def getCustomer_def Let_def jsmap_get_set)
  have seq: "assigned k ops emptyStorage
             = map (\<lambda>j. 1 + int j) [0..<length (assigned k ops emptyStorage)]" for k
    using assigned_counts [of k ops emptyStorage] by (simp add: counter_empty)
  have incr: "sorted_wrt (<) (assigned k ops emptyStorage)"
    by (subst seq) (rule sorted_count_up)
  then have dist: "distinct (assigned k ops emptyStorage)"
    using strict_sorted_iff by blast
  have stored: "set (storedIds k (runOps ops emptyStorage)) \<subseteq> set (assigned k ops emptyStorage)"
    using storedIds_runOps [of k ops emptyStorage] by (simp add: storedIds_empty)
  have "currentCustomerId (runOps ops emptyStorage)
        = 1 + int (length (assigned CustomerKind ops emptyStorage))"
    using assigned_counts [of CustomerKind ops emptyStorage] by (simp add: counter_empty)
  then have next_id: "c_id (snd (createCustomer (runOps ops emptyStorage) ins))
        = int (length (assigned CustomerKind ops emptyStorage)) + 1"
    by (simp add: assigned_ids_of_create)
  have mx: "Max (insert 0 (set (assigned CustomerKind ops emptyStorage)))
        = int (length (assigned CustomerKind ops emptyStorage))"
    by (subst seq) (rule Max_count_up)
  have fresh: "c_id (snd (createCustomer (runOps ops emptyStorage) ins))
        \<notin> set (assigned CustomerKind ops emptyStorage)"
    unfolding next_id by (subst seq) auto
  from create seq incr dist stored next_id mx fresh show ?thesis
    by simp
qed

lemma shortHistory_assigned:
  "assigned CustomerKind shortHistory emptyStorage = [1, 2]"
  "storedIds CustomerKind (runOps shortHistory emptyStorage) = [2]"
  "currentCustomerId (runOps shortHistory emptyStorage) = 3"
  by code_simp+

theorem identifiers_assigned_in_sequence_witness:
  "assigned CustomerKind shortHistory emptyStorage = [1, 2]
   \<and> storedIds CustomerKind (runOps shortHistory emptyStorage) = [2]
   \<and> c_id (snd (createCustomer (runOps shortHistory emptyStorage)
                   \<lparr> ic_name = ''Cy'', ic_email = ''cy@example.com'', ic_phoneNumber = ''3'' \<rparr>))
       = 3
   \<and> getCustomer
         (fst (createCustomer (runOps shortHistory emptyStorage)
                 \<lparr> ic_name = ''Cy'', ic_email = ''cy@example.com'', ic_phoneNumber = ''3'' \<rparr>)) 3
       = Some \<lparr> c_id = 3, c_name = ''Cy'', c_email = ''cy@example.com'',
                 c_phoneNumber = ''3'' \<rparr>"
  using identifiers_assigned_in_sequence
    [of "runOps shortHistory emptyStorage"
        "\<lparr> ic_name = ''Cy'', ic_email = ''cy@example.com'', ic_phoneNumber = ''3'' \<rparr>"
        CustomerKind shortHistory]
  by (simp add: shortHistory_assigned shortHistory_customers createCustomer_def Let_def
      jsmap_keys_def)

section \<open>Interpolation\<close>








declare replaceFrom.simps [simp del]
































end
